theory Spec2Isabelle
  imports
    Complex_Main
    "HOL-Library.Log_Nat"
    "HOL-Library.AList"
    "HOL-Library.Char_ord"
    "HOL-Library.List_Lexorder"
begin

section \<open>Values\<close>

text \<open>
  The task manager keeps open-ended bags (\<open>Dict[str, Any]\<close>) beside its typed fields and
  writes everything to disk as JSON.  Two value types are kept apart: \<open>pyval\<close>, what a
  caller may hold in memory in a field of type \<open>Any\<close>, and \<open>json\<close>, what
  \<open>json.load\<close> hands back.  A tuple is the one in-memory shape here that JSON does not
  have.  A float is given by the rational number it denotes; the infinities and nan are
  left out of both types.
  Strings are byte lists (UTF-8); Python dictionaries are association lists in insertion
  order.
\<close>

datatype pyval =
    PyNone
  | PyBool bool
  | PyInt int
  | PyFloat rat
  | PyStr string
  | PyList "pyval list"
  | PyTuple "pyval list"
  | PyDict "(string \<times> pyval) list"

datatype json =
    JNull
  | JBool bool
  | JInt int
  | JFloat rat
  | JStr string
  | JList "json list"
  | JObj "(string \<times> json) list"

text \<open>The exceptions the source can raise on the paths modelled below.\<close>

datatype exception =
    ValueError string
  | ValidationError
  | JSONDecodeError
  | TypeError
  | KeyError string
  | AttributeError
  | StopIteration
  | NotModelled

section \<open>Floating point\<close>

text \<open>
  \<open>int((completed / len(tasks)) * 100)\<close> is computed in IEEE binary64.  A float is
  modelled by the rational it denotes; \<open>fl\<close> rounds a rational to the nearest number
  with a 53-bit significand, ties to even, which is what one correctly rounded
  operation (Python's \<open>/\<close> on ints, \<open>*\<close> and \<open>/\<close> on floats) returns.  Overflow and
  subnormal numbers do not occur for the magnitudes used here and are not modelled.
\<close>

definition ilog2 :: "rat \<Rightarrow> int" where
  "ilog2 x = (case quotient_of x of (p, q) \<Rightarrow>
      let d = bitlen p - bitlen q
      in if 2 powi d \<le> x then d else d - 1)"

definition round_half_even :: "rat \<Rightarrow> int" where
  "round_half_even x = (let f = \<lfloor>x\<rfloor>; r = x - of_int f
     in if r < 1/2 then f else if 1/2 < r then f + 1 else if even f then f else f + 1)"

definition fl :: "rat \<Rightarrow> rat" where
  "fl x = (if x = 0 then 0 else
     let s = 2 powi (ilog2 \<bar>x\<bar> - 52)
     in sgn x * of_int (round_half_even (\<bar>x\<bar> / s)) * s)"

text \<open>\<open>int(x)\<close> on a float truncates toward zero.\<close>

definition py_int :: "rat \<Rightarrow> int" where
  "py_int x = (if 0 \<le> x then \<lfloor>x\<rfloor> else \<lceil>x\<rceil>)"

text \<open>\<open>int((completed / total) * 100)\<close> for \<open>total > 0\<close>.\<close>

definition pct_of :: "nat \<Rightarrow> nat \<Rightarrow> int" where
  "pct_of n_completed n_total = py_int (fl (fl (of_nat n_completed / of_nat n_total) * 100))"

section \<open>Dates and times\<close>

text \<open>
  A naive \<open>datetime\<close> as Python stores it: calendar fields, compared field by field.
\<close>

record datetime =
  year :: nat
  month :: nat
  day :: nat
  hour :: nat
  minute :: nat
  second :: nat
  microsecond :: nat

definition is_leap :: "nat \<Rightarrow> bool" where
  "is_leap y = (y mod 4 = 0 \<and> (y mod 100 \<noteq> 0 \<or> y mod 400 = 0))"

definition days_in_month :: "nat \<Rightarrow> nat \<Rightarrow> nat" where
  "days_in_month y m =
     (if m = 2 then (if is_leap y then 29 else 28)
      else if m = 4 \<or> m = 6 \<or> m = 9 \<or> m = 11 then 30 else 31)"

definition valid_datetime :: "datetime \<Rightarrow> bool" where
  "valid_datetime d =
     (1 \<le> year d \<and> year d \<le> 9999 \<and> 1 \<le> month d \<and> month d \<le> 12 \<and>
      1 \<le> day d \<and> day d \<le> days_in_month (year d) (month d) \<and>
      hour d < 24 \<and> minute d < 60 \<and> second d < 60 \<and> microsecond d < 1000000)"

definition dt_key :: "datetime \<Rightarrow> nat list" where
  "dt_key d = [year d, month d, day d, hour d, minute d, second d, microsecond d]"

definition dt_le :: "datetime \<Rightarrow> datetime \<Rightarrow> bool" where
  "dt_le a b = (dt_key a \<le> dt_key b)"

definition days_before_year :: "nat \<Rightarrow> int" where
  "days_before_year y =
     (let p = int y - 1 in p * 365 + p div 4 - p div 100 + p div 400)"

definition days_before_month :: "nat \<Rightarrow> nat \<Rightarrow> int" where
  "days_before_month y m = (\<Sum>k \<leftarrow> [1..<m]. int (days_in_month y k))"

definition toordinal :: "datetime \<Rightarrow> int" where
  "toordinal d = days_before_year (year d) + days_before_month (year d) (month d) + int (day d)"

definition to_micros :: "datetime \<Rightarrow> int" where
  "to_micros d =
     (((toordinal d * 24 + int (hour d)) * 60 + int (minute d)) * 60 + int (second d)) * 1000000
       + int (microsecond d)"

text \<open>
  \<open>int((completed_at - started_at).total_seconds() / 60)\<close>: the difference is an exact
  number of microseconds, \<open>total_seconds\<close> divides it by \<open>10**6\<close> and the source divides
  by 60, both in binary64, and \<open>int\<close> truncates.
\<close>

definition minutes_between :: "datetime \<Rightarrow> datetime \<Rightarrow> int" where
  "minutes_between started completed =
     py_int (fl (fl (of_int (to_micros completed - to_micros started) / 1000000) / 60))"

subsection \<open>ISO-8601 text\<close>

definition digit :: "nat \<Rightarrow> char" where
  "digit d = char_of (48 + d)"

definition digit_val :: "char \<Rightarrow> nat option" where
  "digit_val c = (let n = (of_char c :: nat) in if 48 \<le> n \<and> n \<le> 57 then Some (n - 48) else None)"

definition pad2 :: "nat \<Rightarrow> string" where
  "pad2 n = [digit (n div 10 mod 10), digit (n mod 10)]"

definition pad4 :: "nat \<Rightarrow> string" where
  "pad4 n = pad2 (n div 100) @ pad2 (n mod 100)"

definition pad6 :: "nat \<Rightarrow> string" where
  "pad6 n = pad2 (n div 10000) @ pad4 (n mod 10000)"

fun parse_nat :: "nat \<Rightarrow> string \<Rightarrow> nat option" where
  "parse_nat acc [] = Some acc"
| "parse_nat acc (c # cs) =
     (case digit_val c of None \<Rightarrow> None | Some d \<Rightarrow> parse_nat (10 * acc + d) cs)"

text \<open>
  \<open>isoformat\<close> is the text pydantic writes for a naive datetime in JSON mode: the
  fraction is left out when the microsecond field is 0.
\<close>

definition isoformat :: "datetime \<Rightarrow> string" where
  "isoformat d =
     pad4 (year d) @ ''-'' @ pad2 (month d) @ ''-'' @ pad2 (day d) @ ''T'' @
     pad2 (hour d) @ '':'' @ pad2 (minute d) @ '':'' @ pad2 (second d) @
     (if microsecond d = 0 then [] else ''.'' @ pad6 (microsecond d))"

text \<open>
  Reading a datetime back.  Only the two shapes \<open>isoformat\<close> writes are accepted;
  pydantic itself accepts more spellings (zone suffixes, a space for \<open>T\<close>, numbers as
  timestamps), which this model reports as a validation failure.
\<close>

definition fromisoformat :: "string \<Rightarrow> datetime option" where
  "fromisoformat s =
     (if (length s = 19 \<or> length s = 26) \<and>
         s ! 4 = CHR ''-'' \<and> s ! 7 = CHR ''-'' \<and> s ! 10 = CHR ''T'' \<and>
         s ! 13 = CHR '':'' \<and> s ! 16 = CHR '':'' \<and> (length s = 26 \<longrightarrow> s ! 19 = CHR ''.'')
      then
        (case (parse_nat 0 (take 4 s), parse_nat 0 (take 2 (drop 5 s)),
               parse_nat 0 (take 2 (drop 8 s)), parse_nat 0 (take 2 (drop 11 s)),
               parse_nat 0 (take 2 (drop 14 s)), parse_nat 0 (take 2 (drop 17 s)),
               parse_nat 0 (drop 20 s)) of
           (Some y, Some mo, Some d, Some h, Some mi, Some se, Some us) \<Rightarrow>
             (let r = \<lparr>year = y, month = mo, day = d, hour = h, minute = mi, second = se,
                       microsecond = us\<rparr>
              in if valid_datetime r then Some r else None)
         | _ \<Rightarrow> None)
      else None)"

section \<open>Schema\<close>

datatype TaskStatus = PENDING | IN_PROGRESS | BLOCKED | COMPLETED | FAILED | SKIPPED | DEFERRED

datatype TaskPriority = CRITICAL | HIGH | MEDIUM | LOW

text \<open>The string value of each enum member.\<close>

fun status_value :: "TaskStatus \<Rightarrow> string" where
  "status_value PENDING = ''pending''"
| "status_value IN_PROGRESS = ''in_progress''"
| "status_value BLOCKED = ''blocked''"
| "status_value COMPLETED = ''completed''"
| "status_value FAILED = ''failed''"
| "status_value SKIPPED = ''skipped''"
| "status_value DEFERRED = ''deferred''"

fun priority_value :: "TaskPriority \<Rightarrow> string" where
  "priority_value CRITICAL = ''critical''"
| "priority_value HIGH = ''high''"
| "priority_value MEDIUM = ''medium''"
| "priority_value LOW = ''low''"

definition all_statuses :: "TaskStatus list" where
  "all_statuses = [PENDING, IN_PROGRESS, BLOCKED, COMPLETED, FAILED, SKIPPED, DEFERRED]"

record TaskCheckpoint =
  timestamp :: datetime
  cp_progress_pct :: int
  current_item :: "string option"
  items_completed :: int
  items_total :: int
  cp_context :: "(string \<times> pyval) list"
  cp_notes :: "string option"

record Task =
  task_id :: string
  stage :: string
  title :: string
  description :: "string option"
  status :: TaskStatus
  priority :: TaskPriority
  depends_on :: "string list"
  blocks :: "string list"
  started_at :: "datetime option"
  completed_at :: "datetime option"
  estimated_minutes :: "int option"
  actual_minutes :: "int option"
  checkpoint :: "TaskCheckpoint option"
  task_output :: "(string \<times> pyval) list option"
  error :: "string option"
  assigned_agent :: "string option"
  retry_count :: int
  max_retries :: int
  tags :: "string list"

record TaskList =
  list_id :: string
  name :: string
  list_description :: "string option"
  created_at :: datetime
  updated_at :: datetime
  created_by :: string
  pipeline :: string
  tasks :: "Task list"
  session_id :: "string option"
  last_active_task_id :: "string option"
  global_context :: "(string \<times> pyval) list"

text \<open>The two derived properties of \<open>TaskList\<close>.\<close>

definition progress_pct :: "TaskList \<Rightarrow> int" where
  "progress_pct tlist =
     (if tasks tlist = [] then 0
      else pct_of (length (filter (\<lambda>t. status t = COMPLETED) (tasks tlist))) (length (tasks tlist)))"

definition status_summary :: "TaskList \<Rightarrow> (string \<times> int) list" where
  "status_summary tlist =
     map (\<lambda>s. (status_value s, int (length (filter (\<lambda>t. status t = s) (tasks tlist))))) all_statuses"

section \<open>Writing and reading a task list\<close>

text \<open>
  \<open>model_dump(mode='json')\<close> turns the entity graph into plain JSON values: an enum
  becomes its string value, a datetime its ISO text, \<open>None\<close> becomes \<open>null\<close>, and a value
  of type \<open>Any\<close> is written by its run-time shape, a tuple as an array.
\<close>

fun dump_any :: "pyval \<Rightarrow> json" where
  "dump_any PyNone = JNull"
| "dump_any (PyBool b) = JBool b"
| "dump_any (PyInt i) = JInt i"
| "dump_any (PyFloat x) = JFloat x"
| "dump_any (PyStr s) = JStr s"
| "dump_any (PyList xs) = JList (map dump_any xs)"
| "dump_any (PyTuple xs) = JList (map dump_any xs)"
| "dump_any (PyDict kvs) = JObj (map (map_prod (\<lambda>k. k) dump_any) kvs)"

text \<open>A field of type \<open>Any\<close> keeps what \<open>json.load\<close> produced.\<close>

fun load_any :: "json \<Rightarrow> pyval" where
  "load_any JNull = PyNone"
| "load_any (JBool b) = PyBool b"
| "load_any (JInt i) = PyInt i"
| "load_any (JFloat x) = PyFloat x"
| "load_any (JStr s) = PyStr s"
| "load_any (JList xs) = PyList (map load_any xs)"
| "load_any (JObj kvs) = PyDict (map (map_prod (\<lambda>k. k) load_any) kvs)"

text \<open>
  A value with no tuple inside: \<open>None\<close>, a boolean, an integer, a float, a string, or a
  list or dictionary of such values, which JSON holds as it is.
\<close>

fun json_native :: "pyval \<Rightarrow> bool" where
  "json_native (PyList xs) = list_all json_native xs"
| "json_native (PyTuple xs) = False"
| "json_native (PyDict kvs) = list_all (\<lambda>kv. json_native (snd kv)) kvs"
| "json_native _ = True"

definition dump_dict :: "(string \<times> pyval) list \<Rightarrow> json" where
  "dump_dict kvs = JObj (map (map_prod (\<lambda>k. k) dump_any) kvs)"

definition dump_opt :: "('a \<Rightarrow> json) \<Rightarrow> 'a option \<Rightarrow> json" where
  "dump_opt f x = (case x of None \<Rightarrow> JNull | Some v \<Rightarrow> f v)"

definition dump_datetime :: "datetime \<Rightarrow> json" where
  "dump_datetime d = JStr (isoformat d)"

definition dump_strs :: "string list \<Rightarrow> json" where
  "dump_strs xs = JList (map JStr xs)"

definition dump_checkpoint :: "TaskCheckpoint \<Rightarrow> json" where
  "dump_checkpoint c = JObj
     [(''timestamp'', dump_datetime (timestamp c)),
      (''progress_pct'', JInt (cp_progress_pct c)),
      (''current_item'', dump_opt JStr (current_item c)),
      (''items_completed'', JInt (items_completed c)),
      (''items_total'', JInt (items_total c)),
      (''context'', dump_dict (cp_context c)),
      (''notes'', dump_opt JStr (cp_notes c))]"

definition dump_task :: "Task \<Rightarrow> json" where
  "dump_task t = JObj
     [(''id'', JStr (task_id t)),
      (''stage'', JStr (stage t)),
      (''title'', JStr (title t)),
      (''description'', dump_opt JStr (description t)),
      (''status'', JStr (status_value (status t))),
      (''priority'', JStr (priority_value (priority t))),
      (''depends_on'', dump_strs (depends_on t)),
      (''blocks'', dump_strs (blocks t)),
      (''started_at'', dump_opt dump_datetime (started_at t)),
      (''completed_at'', dump_opt dump_datetime (completed_at t)),
      (''estimated_minutes'', dump_opt JInt (estimated_minutes t)),
      (''actual_minutes'', dump_opt JInt (actual_minutes t)),
      (''checkpoint'', dump_opt dump_checkpoint (checkpoint t)),
      (''output'', dump_opt dump_dict (task_output t)),
      (''error'', dump_opt JStr (error t)),
      (''assigned_agent'', dump_opt JStr (assigned_agent t)),
      (''retry_count'', JInt (retry_count t)),
      (''max_retries'', JInt (max_retries t)),
      (''tags'', dump_strs (tags t))]"

definition model_dump :: "TaskList \<Rightarrow> json" where
  "model_dump tlist = JObj
     [(''id'', JStr (list_id tlist)),
      (''name'', JStr (name tlist)),
      (''description'', dump_opt JStr (list_description tlist)),
      (''created_at'', dump_datetime (created_at tlist)),
      (''updated_at'', dump_datetime (updated_at tlist)),
      (''created_by'', JStr (created_by tlist)),
      (''pipeline'', JStr (pipeline tlist)),
      (''tasks'', JList (map dump_task (tasks tlist))),
      (''session_id'', dump_opt JStr (session_id tlist)),
      (''last_active_task_id'', dump_opt JStr (last_active_task_id tlist)),
      (''global_context'', dump_dict (global_context tlist))]"

text \<open>
  \<open>TaskList(**data)\<close>: pydantic validates the document field by field.  The readers
  below accept exactly the field shapes \<open>model_dump\<close> writes and want every key
  present; pydantic also fills defaults for absent keys and coerces some other shapes,
  which this model reports as a validation failure (\<open>None\<close>).
\<close>

definition read_str :: "json \<Rightarrow> string option" where
  "read_str j = (case j of JStr s \<Rightarrow> Some s | _ \<Rightarrow> None)"

definition read_int :: "json \<Rightarrow> int option" where
  "read_int j = (case j of JInt i \<Rightarrow> Some i | _ \<Rightarrow> None)"

definition read_opt :: "(json \<Rightarrow> 'a option) \<Rightarrow> json \<Rightarrow> 'a option option" where
  "read_opt f j = (case j of JNull \<Rightarrow> Some None | _ \<Rightarrow> map_option Some (f j))"

definition read_list :: "(json \<Rightarrow> 'a option) \<Rightarrow> json \<Rightarrow> 'a list option" where
  "read_list f j = (case j of JList xs \<Rightarrow> those (map f xs) | _ \<Rightarrow> None)"

definition read_datetime :: "json \<Rightarrow> datetime option" where
  "read_datetime j = (case j of JStr s \<Rightarrow> fromisoformat s | _ \<Rightarrow> None)"

definition read_dict :: "json \<Rightarrow> (string \<times> pyval) list option" where
  "read_dict j = (case j of JObj kvs \<Rightarrow> Some (map (map_prod (\<lambda>k. k) load_any) kvs) | _ \<Rightarrow> None)"

definition read_status :: "json \<Rightarrow> TaskStatus option" where
  "read_status j =
     (case j of JStr s \<Rightarrow> find (\<lambda>st. status_value st = s) all_statuses | _ \<Rightarrow> None)"

definition read_priority :: "json \<Rightarrow> TaskPriority option" where
  "read_priority j =
     (case j of JStr s \<Rightarrow> find (\<lambda>pr. priority_value pr = s) [CRITICAL, HIGH, MEDIUM, LOW]
      | _ \<Rightarrow> None)"

definition field :: "(json \<Rightarrow> 'a option) \<Rightarrow> string \<Rightarrow> (string \<times> json) list \<Rightarrow> 'a option" where
  "field f k kvs = (case map_of kvs k of None \<Rightarrow> None | Some j \<Rightarrow> f j)"

definition read_checkpoint :: "json \<Rightarrow> TaskCheckpoint option" where
  "read_checkpoint j =
     (case j of
        JObj kvs \<Rightarrow>
          (case (field read_datetime ''timestamp'' kvs, field read_int ''progress_pct'' kvs,
                 field (read_opt read_str) ''current_item'' kvs,
                 field read_int ''items_completed'' kvs, field read_int ''items_total'' kvs,
                 field read_dict ''context'' kvs, field (read_opt read_str) ''notes'' kvs) of
             (Some ts, Some p, Some ci, Some ic, Some it, Some cx, Some no) \<Rightarrow>
               if 0 \<le> p \<and> p \<le> 100
               then Some \<lparr>timestamp = ts, cp_progress_pct = p, current_item = ci,
                          items_completed = ic, items_total = it, cp_context = cx,
                          cp_notes = no\<rparr>
               else None
           | _ \<Rightarrow> None)
      | _ \<Rightarrow> None)"

definition read_task :: "json \<Rightarrow> Task option" where
  "read_task j =
     (case j of
        JObj kvs \<Rightarrow>
          (case (field read_str ''id'' kvs, field read_str ''stage'' kvs,
                 field read_str ''title'' kvs, field (read_opt read_str) ''description'' kvs,
                 field read_status ''status'' kvs, field read_priority ''priority'' kvs,
                 field (read_list read_str) ''depends_on'' kvs,
                 field (read_list read_str) ''blocks'' kvs,
                 field (read_opt read_datetime) ''started_at'' kvs,
                 field (read_opt read_datetime) ''completed_at'' kvs) of
             (Some a, Some b, Some c, Some d, Some e, Some f, Some g, Some h, Some i, Some k) \<Rightarrow>
               (case (field (read_opt read_int) ''estimated_minutes'' kvs,
                      field (read_opt read_int) ''actual_minutes'' kvs,
                      field (read_opt read_checkpoint) ''checkpoint'' kvs,
                      field (read_opt read_dict) ''output'' kvs,
                      field (read_opt read_str) ''error'' kvs,
                      field (read_opt read_str) ''assigned_agent'' kvs,
                      field read_int ''retry_count'' kvs, field read_int ''max_retries'' kvs,
                      field (read_list read_str) ''tags'' kvs) of
                  (Some l, Some m, Some n, Some p, Some q, Some r, Some s, Some u, Some v) \<Rightarrow>
                    Some \<lparr>task_id = a, stage = b, title = c, description = d, status = e,
                          priority = f, depends_on = g, blocks = h, started_at = i,
                          completed_at = k, estimated_minutes = l, actual_minutes = m,
                          checkpoint = n, task_output = p, error = q, assigned_agent = r,
                          retry_count = s, max_retries = u, tags = v\<rparr>
                | _ \<Rightarrow> None)
           | _ \<Rightarrow> None)
      | _ \<Rightarrow> None)"

definition validate_task_list :: "json \<Rightarrow> TaskList option" where
  "validate_task_list j =
     (case j of
        JObj kvs \<Rightarrow>
          (case (field read_str ''id'' kvs, field read_str ''name'' kvs,
                 field (read_opt read_str) ''description'' kvs,
                 field read_datetime ''created_at'' kvs, field read_datetime ''updated_at'' kvs,
                 field read_str ''created_by'' kvs, field read_str ''pipeline'' kvs,
                 field (read_list read_task) ''tasks'' kvs,
                 field (read_opt read_str) ''session_id'' kvs,
                 field (read_opt read_str) ''last_active_task_id'' kvs,
                 field read_dict ''global_context'' kvs) of
             (Some a, Some b, Some c, Some d, Some e, Some f, Some g, Some h, Some i, Some k,
              Some l) \<Rightarrow>
               Some \<lparr>list_id = a, name = b, list_description = c, created_at = d,
                     updated_at = e, created_by = f, pipeline = g, tasks = h, session_id = i,
                     last_active_task_id = k, global_context = l\<rparr>
           | _ \<Rightarrow> None)
      | _ \<Rightarrow> None)"

section \<open>The task manager\<close>

text \<open>
  The manager's state: the directory of task files, the task list loaded last, and the
  system clock.  A file either holds text that \<open>json.load\<close> rejects or a JSON value.
  The clock is the sequence of readings \<open>datetime.utcnow()\<close> will return, with the number
  of readings taken so far.  The optional Supabase backup is absent (\<open>supabase=None\<close>);
  logging is left out.
\<close>

datatype file_content = Unparseable | Parsed json

record TaskManager =
  tasks_dir :: "(string \<times> file_content) list"
  current_task_list :: "TaskList option"
  clock :: "nat \<Rightarrow> datetime"
  ticks :: nat

definition utcnow :: "TaskManager \<Rightarrow> datetime \<times> TaskManager" where
  "utcnow m = (clock m (ticks m), m\<lparr>ticks := Suc (ticks m)\<rparr>)"

subsection \<open>Persistence\<close>

definition get_task_file :: "string \<Rightarrow> string" where
  "get_task_file task_list_id = task_list_id @ ''.json''"

text \<open>
  \<open>save\<close> stamps \<open>updated_at\<close> on the list it is given, in place, and writes the file.
  The stamped list is returned beside the new state.
\<close>

definition save :: "TaskManager \<Rightarrow> TaskList \<Rightarrow> TaskList \<times> TaskManager" where
  "save m task_list =
     (case utcnow m of (now, m1) \<Rightarrow>
        let stamped = task_list\<lparr>updated_at := now\<rparr>
        in (stamped,
            m1\<lparr>tasks_dir :=
                  AList.update (get_task_file (list_id stamped)) (Parsed (model_dump stamped))
                    (tasks_dir m1)\<rparr>))"

text \<open>
  Every operation ends with \<open>self.save(self._current_task_list)\<close> on the list it has
  just changed in place.
\<close>

definition commit :: "TaskManager \<Rightarrow> TaskList \<Rightarrow> TaskManager" where
  "commit m task_list =
     (case save m task_list of (stamped, m1) \<Rightarrow> m1\<lparr>current_task_list := Some stamped\<rparr>)"

definition load :: "TaskManager \<Rightarrow> string \<Rightarrow> exception + (TaskList option \<times> TaskManager)" where
  "load m task_list_id =
     (case map_of (tasks_dir m) (get_task_file task_list_id) of
        None \<Rightarrow> Inr (None, m)
      | Some Unparseable \<Rightarrow> Inl JSONDecodeError
      | Some (Parsed data) \<Rightarrow>
          (case data of
             JObj kvs \<Rightarrow>
               (case validate_task_list data of
                  None \<Rightarrow> Inl ValidationError
                | Some task_list \<Rightarrow> Inr (Some task_list, m\<lparr>current_task_list := Some task_list\<rparr>))
           | _ \<Rightarrow> Inl TypeError))"

subsection \<open>Listing\<close>

text \<open>Python's truth value of a JSON value.\<close>

fun falsy :: "json \<Rightarrow> bool" where
  "falsy JNull = True"
| "falsy (JBool b) = (\<not> b)"
| "falsy (JInt i) = (i = 0)"
| "falsy (JFloat x) = (x = 0)"
| "falsy (JStr s) = (s = [])"
| "falsy (JList xs) = (xs = [])"
| "falsy (JObj kvs) = (kvs = [])"

definition get_tasks :: "(string \<times> json) list \<Rightarrow> json" where
  "get_tasks data = (case map_of data ''tasks'' of None \<Rightarrow> JList [] | Some v \<Rightarrow> v)"

text \<open>
  \<open>t.get("status")\<close> for each \<open>t\<close> in \<open>tasks\<close>: the elements of an array must be objects;
  iterating a string or an object yields strings, which have no \<open>get\<close>; a number or a
  boolean cannot be iterated.
\<close>

fun get_status :: "json \<Rightarrow> exception + json" where
  "get_status (JObj kvs) = Inr (case map_of kvs ''status'' of None \<Rightarrow> JNull | Some v \<Rightarrow> v)"
| "get_status _ = Inl AttributeError"

fun collect :: "('a \<Rightarrow> exception + 'b) \<Rightarrow> 'a list \<Rightarrow> exception + 'b list" where
  "collect f [] = Inr []"
| "collect f (x # xs) =
     (case f x of Inl e \<Rightarrow> Inl e
      | Inr y \<Rightarrow> (case collect f xs of Inl e \<Rightarrow> Inl e | Inr ys \<Rightarrow> Inr (y # ys)))"

fun task_statuses :: "json \<Rightarrow> exception + json list" where
  "task_statuses (JList xs) = collect get_status xs"
| "task_statuses (JStr s) = (if s = [] then Inr [] else Inl AttributeError)"
| "task_statuses (JObj kvs) = (if kvs = [] then Inr [] else Inl AttributeError)"
| "task_statuses _ = Inl TypeError"

definition calc_progress :: "(string \<times> json) list \<Rightarrow> exception + int" where
  "calc_progress data =
     (let tasks_j = get_tasks data in
      if falsy tasks_j then Inr 0
      else (case task_statuses tasks_j of
              Inl e \<Rightarrow> Inl e
            | Inr statuses \<Rightarrow>
                Inr (pct_of (length (filter (\<lambda>s. s = JStr ''completed'') statuses))
                       (length statuses))))"

definition get_overall_status :: "(string \<times> json) list \<Rightarrow> exception + string" where
  "get_overall_status data =
     (let tasks_j = get_tasks data in
      if falsy tasks_j then Inr ''empty''
      else (case task_statuses tasks_j of
              Inl e \<Rightarrow> Inl e
            | Inr statuses \<Rightarrow>
                Inr (if list_all (\<lambda>s. s = JStr ''completed'') statuses then ''completed''
                     else if list_ex (\<lambda>s. s = JStr ''in_progress'') statuses then ''in_progress''
                     else if list_ex (\<lambda>s. s = JStr ''failed'') statuses then ''has_failures''
                     else ''pending'')))"

function str_nat :: "nat \<Rightarrow> string" where
  "str_nat n = (if n < 10 then [digit n] else str_nat (n div 10) @ [digit (n mod 10)])"
  by pat_completeness auto
termination
  by (relation "measure (\<lambda>n. n)") auto

declare str_nat.simps [simp del]

definition str_int :: "int \<Rightarrow> string" where
  "str_int i = (if i < 0 then ''-'' @ str_nat (nat (- i)) else str_nat (nat i))"

text \<open>One entry of the listing: the dictionary with these five keys.\<close>

record ListEntry =
  entry_id :: json
  entry_name :: json
  entry_progress :: string
  entry_updated_at :: json
  entry_status :: string

definition entry_of :: "json \<Rightarrow> exception + ListEntry" where
  "entry_of data =
     (case data of
        JObj kvs \<Rightarrow>
          (case map_of kvs ''id'' of
             None \<Rightarrow> Inl (KeyError ''id'')
           | Some i \<Rightarrow>
          (case map_of kvs ''name'' of
             None \<Rightarrow> Inl (KeyError ''name'')
           | Some n \<Rightarrow>
          (case calc_progress kvs of
             Inl e \<Rightarrow> Inl e
           | Inr p \<Rightarrow>
          (case map_of kvs ''updated_at'' of
             None \<Rightarrow> Inl (KeyError ''updated_at'')
           | Some u \<Rightarrow>
          (case get_overall_status kvs of
             Inl e \<Rightarrow> Inl e
           | Inr st \<Rightarrow>
               Inr \<lparr>entry_id = i, entry_name = n, entry_progress = str_int p @ ''%'',
                    entry_updated_at = u, entry_status = st\<rparr>)))))
      | _ \<Rightarrow> Inl TypeError)"

text \<open>
  The loop body of \<open>list_task_lists\<close>: whatever is raised while a file is read and its
  entry built is caught, and the file is skipped.
\<close>

fun read_entries :: "(string \<times> file_content) list \<Rightarrow> ListEntry list" where
  "read_entries [] = []"
| "read_entries ((file_name, Unparseable) # rest) = read_entries rest"
| "read_entries ((file_name, Parsed data) # rest) =
     (case entry_of data of
        Inl e \<Rightarrow> read_entries rest
      | Inr entry \<Rightarrow> entry # read_entries rest)"

text \<open>
  \<open>a < b\<close> on two \<open>updated_at\<close> values as \<open>sorted\<close> evaluates it: strings compare by
  code point, numbers and booleans as numbers, and any other pairing raises
  \<open>TypeError\<close>.  The order of two arrays is not modelled.
\<close>

fun py_lt :: "json \<Rightarrow> json \<Rightarrow> exception + bool" where
  "py_lt (JStr a) (JStr b) = Inr (a < b)"
| "py_lt (JInt a) (JInt b) = Inr (a < b)"
| "py_lt (JInt a) (JBool b) = Inr (a < of_bool b)"
| "py_lt (JBool a) (JInt b) = Inr (of_bool a < b)"
| "py_lt (JBool a) (JBool b) = Inr (\<not> a \<and> b)"
| "py_lt (JFloat a) (JFloat b) = Inr (a < b)"
| "py_lt (JFloat a) (JInt b) = Inr (a < of_int b)"
| "py_lt (JInt a) (JFloat b) = Inr (of_int a < b)"
| "py_lt (JFloat a) (JBool b) = Inr (a < of_bool b)"
| "py_lt (JBool a) (JFloat b) = Inr (of_bool a < b)"
| "py_lt (JList a) (JList b) = Inl NotModelled"
| "py_lt _ _ = Inl TypeError"

text \<open>
  \<open>sorted(task_lists, key=lambda x: x["updated_at"], reverse=True)\<close>: a stable sort in
  descending order that raises as soon as it compares two keys that have no order.
  It is modelled by insertion from the left, each entry going behind the entries that
  are not smaller than it.  With at most two entries, or with keys that are all
  comparable, this is what Python's own merge sort returns.
\<close>

fun insert_desc :: "ListEntry \<Rightarrow> ListEntry list \<Rightarrow> exception + ListEntry list" where
  "insert_desc x [] = Inr [x]"
| "insert_desc x (y # ys) =
     (case py_lt (entry_updated_at y) (entry_updated_at x) of
        Inl e \<Rightarrow> Inl e
      | Inr True \<Rightarrow> Inr (x # y # ys)
      | Inr False \<Rightarrow> (case insert_desc x ys of Inl e \<Rightarrow> Inl e | Inr zs \<Rightarrow> Inr (y # zs)))"

fun sorted_desc_from :: "ListEntry list \<Rightarrow> ListEntry list \<Rightarrow> exception + ListEntry list" where
  "sorted_desc_from acc [] = Inr acc"
| "sorted_desc_from acc (x # xs) =
     (case insert_desc x acc of Inl e \<Rightarrow> Inl e | Inr acc' \<Rightarrow> sorted_desc_from acc' xs)"

definition endswith :: "string \<Rightarrow> string \<Rightarrow> bool" where
  "endswith s e = (length e \<le> length s \<and> drop (length s - length e) s = e)"

text \<open>\<open>tasks_dir.glob("*.json")\<close>, in the order the directory gives its files.\<close>

definition glob_json :: "(string \<times> file_content) list \<Rightarrow> (string \<times> file_content) list" where
  "glob_json files = filter (\<lambda>(file_name, c). endswith file_name ''.json'') files"

definition list_task_lists :: "TaskManager \<Rightarrow> exception + ListEntry list" where
  "list_task_lists m = sorted_desc_from [] (read_entries (glob_json (tasks_dir m)))"

subsection \<open>Helper methods\<close>

text \<open>
  \<open>_get_task\<close> returns the first task of the current list with the given id, as a
  reference; \<open>put_task\<close> is the write through that reference.
\<close>

definition find_task :: "Task list \<Rightarrow> string \<Rightarrow> Task option" where
  "find_task ts tid = find (\<lambda>t. task_id t = tid) ts"

definition get_task :: "TaskManager \<Rightarrow> string \<Rightarrow> Task option" where
  "get_task m tid =
     (case current_task_list m of None \<Rightarrow> None | Some task_list \<Rightarrow> find_task (tasks task_list) tid)"

fun put_task :: "string \<Rightarrow> Task \<Rightarrow> Task list \<Rightarrow> Task list" where
  "put_task tid t' [] = []"
| "put_task tid t' (t # ts) = (if task_id t = tid then t' # ts else t # put_task tid t' ts)"

definition blocking_dependencies :: "Task list \<Rightarrow> Task \<Rightarrow> string list" where
  "blocking_dependencies ts task =
     filter (\<lambda>dep_id. case find_task ts dep_id of
                         None \<Rightarrow> False
                       | Some dep_task \<Rightarrow> status dep_task \<noteq> COMPLETED)
       (depends_on task)"

definition get_blocking_dependencies :: "TaskManager \<Rightarrow> Task \<Rightarrow> string list" where
  "get_blocking_dependencies m task =
     (case current_task_list m of
        None \<Rightarrow> []
      | Some task_list \<Rightarrow> blocking_dependencies (tasks task_list) task)"

definition get_ready_tasks :: "TaskManager \<Rightarrow> Task list" where
  "get_ready_tasks m =
     (case current_task_list m of
        None \<Rightarrow> []
      | Some task_list \<Rightarrow>
          filter (\<lambda>task. status task = PENDING \<and> get_blocking_dependencies m task = [])
            (tasks task_list))"

text \<open>
  \<open>_update_blocked_tasks\<close> walks the list once and changes tasks in place, so each
  test sees the changes made before it.
\<close>

definition update_blocked_step :: "nat \<Rightarrow> Task list \<Rightarrow> Task list" where
  "update_blocked_step i ts =
     (let task = ts ! i in
      if status task = BLOCKED \<and> blocking_dependencies ts task = []
      then ts[i := task\<lparr>status := PENDING\<rparr>]
      else ts)"

definition update_blocked :: "Task list \<Rightarrow> Task list" where
  "update_blocked ts = fold update_blocked_step [0..<length ts] ts"

definition update_blocked_tasks :: "TaskManager \<Rightarrow> TaskManager" where
  "update_blocked_tasks m =
     (case current_task_list m of
        None \<Rightarrow> m
      | Some task_list \<Rightarrow>
          m\<lparr>current_task_list := Some (task_list\<lparr>tasks := update_blocked (tasks task_list)\<rparr>)\<rparr>)"

subsection \<open>Task operations\<close>

text \<open>\<open>TaskCheckpoint(progress_pct=p)\<close> with every other field at its default.\<close>

definition fresh_checkpoint :: "datetime \<Rightarrow> int \<Rightarrow> TaskCheckpoint" where
  "fresh_checkpoint now p =
     \<lparr>timestamp = now, cp_progress_pct = p, current_item = None, items_completed = 0,
      items_total = 0, cp_context = [], cp_notes = None\<rparr>"

definition no_list_loaded :: exception where
  "no_list_loaded = ValueError ''No task list loaded''"

definition start_task :: "TaskManager \<Rightarrow> string \<Rightarrow> exception + (Task option \<times> TaskManager)" where
  "start_task m tid =
     (case current_task_list m of
        None \<Rightarrow> Inl no_list_loaded
      | Some task_list \<Rightarrow>
          (case get_task m tid of
             None \<Rightarrow> Inr (None, m)
           | Some task \<Rightarrow>
               let blocked_by = get_blocking_dependencies m task in
               if blocked_by \<noteq> [] then
                 let task1 = task\<lparr>status := BLOCKED\<rparr> in
                 Inr (Some task1,
                      commit m (task_list\<lparr>tasks := put_task tid task1 (tasks task_list)\<rparr>))
               else
                 (case utcnow m of (t_start, m1) \<Rightarrow>
                  case utcnow m1 of (t_ckpt, m2) \<Rightarrow>
                    let task1 = task\<lparr>status := IN_PROGRESS, started_at := Some t_start,
                                      checkpoint := Some (fresh_checkpoint t_ckpt 0)\<rparr> in
                    Inr (Some task1,
                         commit m2 (task_list\<lparr>tasks := put_task tid task1 (tasks task_list),
                                              last_active_task_id := Some tid\<rparr>)))))"

definition update_checkpoint ::
  "TaskManager \<Rightarrow> string \<Rightarrow> int \<Rightarrow> string option \<Rightarrow> int \<Rightarrow> int \<Rightarrow>
   (string \<times> pyval) list option \<Rightarrow> string option \<Rightarrow> exception + TaskManager" where
  "update_checkpoint m tid progress cur_item n_done n_items ctx note =
     (case current_task_list m of
        None \<Rightarrow> Inl no_list_loaded
      | Some task_list \<Rightarrow>
          (case get_task m tid of
             None \<Rightarrow> Inr m
           | Some task \<Rightarrow>
               if progress < 0 \<or> 100 < progress then Inl ValidationError
               else
                 (case utcnow m of (now, m1) \<Rightarrow>
                    let task1 = task\<lparr>checkpoint := Some
                          \<lparr>timestamp = now, cp_progress_pct = progress, current_item = cur_item,
                           items_completed = n_done, items_total = n_items,
                           cp_context = (case ctx of None \<Rightarrow> [] | Some c \<Rightarrow> c),
                           cp_notes = note\<rparr>\<rparr> in
                    Inr (commit m1 (task_list\<lparr>tasks := put_task tid task1 (tasks task_list)\<rparr>)))))"

definition complete_task ::
  "TaskManager \<Rightarrow> string \<Rightarrow> (string \<times> pyval) list option \<Rightarrow>
   exception + (Task option \<times> TaskManager)" where
  "complete_task m tid out =
     (case current_task_list m of
        None \<Rightarrow> Inl no_list_loaded
      | Some task_list \<Rightarrow>
          (case get_task m tid of
             None \<Rightarrow> Inr (None, m)
           | Some task \<Rightarrow>
               (case utcnow m of (t_done, m1) \<Rightarrow>
                case utcnow m1 of (t_ckpt, m2) \<Rightarrow>
                  let task1 = task\<lparr>status := COMPLETED, completed_at := Some t_done,
                                    task_output := out\<rparr>;
                      task2 = (case started_at task1 of
                                 None \<Rightarrow> task1
                               | Some t_start \<Rightarrow>
                                   task1\<lparr>actual_minutes := Some (minutes_between t_start t_done)\<rparr>);
                      task3 = task2\<lparr>checkpoint := Some (fresh_checkpoint t_ckpt 100)\<rparr>;
                      ts = update_blocked (put_task tid task3 (tasks task_list))
                  in Inr (find_task ts tid, commit m2 (task_list\<lparr>tasks := ts\<rparr>)))))"

definition fail_task ::
  "TaskManager \<Rightarrow> string \<Rightarrow> string \<Rightarrow> bool \<Rightarrow> exception + (Task option \<times> TaskManager)" where
  "fail_task m tid err retry =
     (case current_task_list m of
        None \<Rightarrow> Inl no_list_loaded
      | Some task_list \<Rightarrow>
          (case get_task m tid of
             None \<Rightarrow> Inr (None, m)
           | Some task \<Rightarrow>
               let task1 = task\<lparr>retry_count := retry_count task + 1\<rparr>;
                   task2 = (if retry \<and> retry_count task1 < max_retries task1
                            then task1\<lparr>error := Some err\<rparr>
                            else task1\<lparr>status := FAILED, error := Some err\<rparr>)
               in Inr (Some task2,
                       commit m (task_list\<lparr>tasks := put_task tid task2 (tasks task_list)\<rparr>))))"

subsection \<open>Crash recovery\<close>

record ResumeBundle =
  rb_task_list :: TaskList
  resume_task :: "Task option"
  rb_checkpoint :: "TaskCheckpoint option"
  next_tasks :: "Task list"
  rb_progress :: int
  rb_status_summary :: "(string \<times> int) list"

datatype ResumeResult = ResumeError string | Resumed ResumeBundle

text \<open>
  The text of a listed id inside \<open>f"{task_list_id}.json"\<close>.  The text of a float, an
  array or an object is not modelled.
\<close>

fun py_str :: "json \<Rightarrow> exception + string" where
  "py_str (JStr s) = Inr s"
| "py_str (JInt i) = Inr (str_int i)"
| "py_str (JBool b) = Inr (if b then ''True'' else ''False'')"
| "py_str JNull = Inr ''None''"
| "py_str _ = Inl NotModelled"

text \<open>
  The two steps of \<open>resume\<close> that pick the task to resume and its checkpoint, on the list
  just loaded (which \<open>load\<close> has made the current one).
\<close>

definition first_priority :: "TaskManager \<Rightarrow> TaskList \<Rightarrow> Task option \<times> TaskCheckpoint option" where
  "first_priority m task_list =
     (case last_active_task_id task_list of
        None \<Rightarrow> (None, None)
      | Some last_id \<Rightarrow>
          if last_id = [] then (None, None)
          else
            (case get_task m last_id of
               None \<Rightarrow> (None, None)
             | Some t \<Rightarrow> (Some t, if status t = IN_PROGRESS then checkpoint t else None)))"

definition resume_target :: "TaskManager \<Rightarrow> TaskList \<Rightarrow> Task option \<times> TaskCheckpoint option" where
  "resume_target m task_list =
     (case first_priority m task_list of
        (Some t, cp) \<Rightarrow> (Some t, cp)
      | (None, cp) \<Rightarrow>
          (case find (\<lambda>task. status task = IN_PROGRESS) (tasks task_list) of
             None \<Rightarrow> (None, cp)
           | Some task \<Rightarrow> (Some task, checkpoint task)))"

definition resume_loaded :: "TaskManager \<Rightarrow> string \<Rightarrow> exception + (ResumeResult \<times> TaskManager)" where
  "resume_loaded m task_list_id =
     (case load m task_list_id of
        Inl e \<Rightarrow> Inl e
      | Inr (None, m1) \<Rightarrow> Inr (ResumeError (''Task list not found: '' @ task_list_id), m1)
      | Inr (Some task_list, m1) \<Rightarrow>
          (case resume_target m1 task_list of (rt, cp) \<Rightarrow>
             Inr (Resumed \<lparr>rb_task_list = task_list, resume_task = rt, rb_checkpoint = cp,
                           next_tasks = get_ready_tasks m1,
                           rb_progress = progress_pct task_list,
                           rb_status_summary = status_summary task_list\<rparr>, m1)))"

definition resume :: "TaskManager \<Rightarrow> string option \<Rightarrow> exception + (ResumeResult \<times> TaskManager)" where
  "resume m task_list_id =
     (case (if task_list_id = None \<or> task_list_id = Some []
            then (case list_task_lists m of
                    Inl e \<Rightarrow> Inl e
                  | Inr [] \<Rightarrow> Inr None
                  | Inr (entry # rest) \<Rightarrow>
                      (case py_str (entry_id entry) of Inl e \<Rightarrow> Inl e | Inr s \<Rightarrow> Inr (Some s)))
            else Inr task_list_id) of
        Inl e \<Rightarrow> Inl e
      | Inr None \<Rightarrow> Inr (ResumeError ''No task lists found'', m)
      | Inr (Some s) \<Rightarrow> resume_loaded m s)"

section \<open>The pipeline template\<close>

record StageDef =
  sd_stage :: string
  sd_title :: string
  sd_description :: "string option"
  sd_depends_on :: "string list option"
  sd_assigned_agent :: "string option"
  sd_estimated_minutes :: "int option"

definition stage_def ::
  "string \<Rightarrow> string \<Rightarrow> string \<Rightarrow> string list option \<Rightarrow> string \<Rightarrow> int \<Rightarrow> StageDef" where
  "stage_def s t d deps agent est =
     \<lparr>sd_stage = s, sd_title = t, sd_description = Some d, sd_depends_on = deps,
      sd_assigned_agent = Some agent, sd_estimated_minutes = Some est\<rparr>"

definition BIDDEED_PIPELINE_STAGES :: "StageDef list" where
  "BIDDEED_PIPELINE_STAGES =
     [stage_def ''discovery'' ''Auction Discovery''
        ''Fetch auction calendar from RealForeclose'' None ''scraper_agent'' 5,
      stage_def ''scraping'' ''Property Data Scraping''
        ''Pull BCPAO parcel data, photos, and details'' (Some [''discovery''])
        ''scraper_agent'' 15,
      stage_def ''title_search'' ''Title Search''
        ''Search AcclaimWeb for recorded documents'' (Some [''scraping''])
        ''scraper_agent'' 20,
      stage_def ''lien_priority'' ''Lien Priority Analysis''
        ''Determine lien positions and survival analysis'' (Some [''title_search''])
        ''analysis_agent'' 15,
      stage_def ''tax_certs'' ''Tax Certificate Check''
        ''Check RealTDM for outstanding tax certificates'' (Some [''scraping''])
        ''scraper_agent'' 10,
      stage_def ''demographics'' ''Demographics Analysis''
        ''Pull Census API data for neighborhood context'' (Some [''scraping''])
        ''analysis_agent'' 5,
      stage_def ''ml_score'' ''ML Scoring''
        ''Run XGBoost model for third-party probability''
        (Some [''lien_priority'', ''demographics'']) ''ml_agent'' 5,
      stage_def ''max_bid'' ''Max Bid Calculation''
        (''Calculate (ARV'' @ [CHR 0xC3, CHR 0x97] @ ''70%)-Repairs-$10K-MIN($25K,15%ARV)'')
        (Some [''ml_score'', ''tax_certs'']) ''analysis_agent'' 5,
      stage_def ''decision_log'' ''Decision Logging''
        ''Generate BID/REVIEW/SKIP recommendations'' (Some [''max_bid''])
        ''analysis_agent'' 5,
      stage_def ''report'' ''Report Generation''
        ''Create DOCX reports with BCPAO photos'' (Some [''decision_log''])
        ''report_agent'' 10,
      stage_def ''disposition'' ''Disposition Tracking''
        ''Track auction outcomes and update history'' (Some [''report''])
        ''operations_agent'' 5,
      stage_def ''archive'' ''Archive Storage''
        ''Store completed analysis in Supabase'' (Some [''disposition''])
        ''operations_agent'' 5]"

text \<open>\<open>Task(id=..., stage=..., ...)\<close> with the other fields at their defaults.\<close>

definition new_task ::
  "string \<Rightarrow> string \<Rightarrow> string \<Rightarrow> string option \<Rightarrow> string option \<Rightarrow> int option \<Rightarrow> Task" where
  "new_task tid stg ttl descr agent est =
     \<lparr>task_id = tid, stage = stg, title = ttl, description = descr, status = PENDING,
      priority = MEDIUM, depends_on = [], blocks = [], started_at = None, completed_at = None,
      estimated_minutes = est, actual_minutes = None, checkpoint = None, task_output = None,
      error = None, assigned_agent = agent, retry_count = 0, max_retries = 3, tags = []\<rparr>"

text \<open>\<open>f"t{i+1:02d}"\<close>: at least two digits.\<close>

definition stage_task_id :: "nat \<Rightarrow> string" where
  "stage_task_id i = ''t'' @ (if i + 1 < 10 then ''0'' else []) @ str_nat (i + 1)"

definition stage_task :: "nat \<Rightarrow> StageDef \<Rightarrow> Task" where
  "stage_task i sd =
     new_task (stage_task_id i) (sd_stage sd) (sd_title sd) (sd_description sd)
       (sd_assigned_agent sd) (sd_estimated_minutes sd)"

text \<open>First loop: one task per stage, and the dictionary from stage name to task id.\<close>

definition template_tasks :: "StageDef list \<Rightarrow> Task list" where
  "template_tasks stages = map (\<lambda>(i, sd). stage_task i sd) (enumerate 0 stages)"

definition task_id_map :: "StageDef list \<Rightarrow> (string \<times> string) list" where
  "task_id_map stages =
     fold (\<lambda>(i, sd) mp. AList.update (sd_stage sd) (stage_task_id i) mp) (enumerate 0 stages) []"

text \<open>
  Second loop: each task looks its stage up again and translates the names it
  depends on into task ids.
\<close>

definition lookup_dep :: "(string \<times> string) list \<Rightarrow> string \<Rightarrow> exception + string" where
  "lookup_dep mp dep = (case map_of mp dep of None \<Rightarrow> Inl (KeyError dep) | Some tid \<Rightarrow> Inr tid)"

definition resolve_dependencies ::
  "StageDef list \<Rightarrow> (string \<times> string) list \<Rightarrow> Task \<Rightarrow> exception + Task" where
  "resolve_dependencies stages mp task =
     (case find (\<lambda>sd. sd_stage sd = stage task) stages of
        None \<Rightarrow> Inl StopIteration
      | Some sd \<Rightarrow>
          (case sd_depends_on sd of
             None \<Rightarrow> Inr task
           | Some deps \<Rightarrow>
               (case collect (lookup_dep mp) deps of
                  Inl e \<Rightarrow> Inl e
                | Inr ids \<Rightarrow> Inr (task\<lparr>depends_on := ids\<rparr>))))"

text \<open>
  Third loop: \<open>blocks\<close> as the reverse of \<open>depends_on\<close>.  The task that is depended on
  is the first one with that id, and it is changed in place.
\<close>

definition add_block :: "string \<Rightarrow> string \<Rightarrow> Task list \<Rightarrow> exception + Task list" where
  "add_block tid dep_id ts =
     (case find_task ts dep_id of
        None \<Rightarrow> Inl StopIteration
      | Some dep_task \<Rightarrow>
          Inr (if tid \<in> set (blocks dep_task) then ts
               else put_task dep_id (dep_task\<lparr>blocks := blocks dep_task @ [tid]\<rparr>) ts))"

fun add_blocks :: "string \<Rightarrow> string list \<Rightarrow> Task list \<Rightarrow> exception + Task list" where
  "add_blocks tid [] ts = Inr ts"
| "add_blocks tid (dep_id # deps) ts =
     (case add_block tid dep_id ts of Inl e \<Rightarrow> Inl e | Inr ts' \<Rightarrow> add_blocks tid deps ts')"

fun calculate_blocks :: "(string \<times> string list) list \<Rightarrow> Task list \<Rightarrow> exception + Task list" where
  "calculate_blocks [] ts = Inr ts"
| "calculate_blocks ((tid, deps) # rest) ts =
     (case add_blocks tid deps ts of Inl e \<Rightarrow> Inl e | Inr ts' \<Rightarrow> calculate_blocks rest ts')"

text \<open>
  \<open>create_biddeed_task_list\<close>.  The random list id and the two clock readings behind
  \<open>created_at\<close> and \<open>updated_at\<close> are arguments.
\<close>

definition create_biddeed_task_list ::
  "string \<Rightarrow> int \<Rightarrow> string option \<Rightarrow> string \<Rightarrow> datetime \<Rightarrow> datetime \<Rightarrow> exception + TaskList" where
  "create_biddeed_task_list auction_date property_count sid uuid t_created t_updated =
     (case collect (resolve_dependencies BIDDEED_PIPELINE_STAGES
                      (task_id_map BIDDEED_PIPELINE_STAGES))
             (template_tasks BIDDEED_PIPELINE_STAGES) of
        Inl e \<Rightarrow> Inl e
      | Inr ts \<Rightarrow>
          (case calculate_blocks (map (\<lambda>t. (task_id t, depends_on t)) ts) ts of
             Inl e \<Rightarrow> Inl e
           | Inr ts' \<Rightarrow>
               Inr \<lparr>list_id = uuid, name = ''auction-'' @ auction_date,
                    list_description =
                      Some (''BidDeed.AI foreclosure analysis pipeline for '' @ auction_date),
                    created_at = t_created, updated_at = t_updated, created_by = ''claude-ai'',
                    pipeline = ''biddeed-12-stage'', tasks = ts', session_id = sid,
                    last_active_task_id = None,
                    global_context =
                      [(''auction_date'', PyStr auction_date),
                       (''property_count'', PyInt property_count),
                       (''county'', PyStr ''brevard'')]\<rparr>))"

definition generate_session_id :: "TaskManager \<Rightarrow> string \<times> TaskManager" where
  "generate_session_id m =
     (case utcnow m of (now, m1) \<Rightarrow>
        (''session-'' @ pad4 (year now) @ pad2 (month now) @ pad2 (day now) @ ''-'' @
           pad2 (hour now) @ pad2 (minute now) @ pad2 (second now), m1))"

text \<open>
  \<open>create_biddeed_pipeline\<close>: the session id is made up when none (or an empty one) is
  given, then the list is built, saved and made the current one.
\<close>

definition create_biddeed_pipeline ::
  "TaskManager \<Rightarrow> string \<Rightarrow> int \<Rightarrow> string option \<Rightarrow> string \<Rightarrow> exception + (TaskList \<times> TaskManager)" where
  "create_biddeed_pipeline m auction_date property_count sid uuid =
     (case (if sid = None \<or> sid = Some [] then
              (case generate_session_id m of (s, m0) \<Rightarrow> (Some s, m0))
            else (sid, m)) of (sid', m0) \<Rightarrow>
      case utcnow m0 of (t_created, m1) \<Rightarrow>
      case utcnow m1 of (t_updated, m2) \<Rightarrow>
        (case create_biddeed_task_list auction_date property_count sid' uuid t_created t_updated of
           Inl e \<Rightarrow> Inl e
         | Inr task_list \<Rightarrow>
             (case save m2 task_list of (stamped, m3) \<Rightarrow>
                Inr (stamped, m3\<lparr>current_task_list := Some stamped\<rparr>))))"

section \<open>Runs of the engine\<close>

text \<open>
  The four operations a caller reports, and a run of them on a manager.  A run ends at
  the first operation that raises.
\<close>

datatype operation =
    Start string
  | Checkpoint string int "string option" int int "(string \<times> pyval) list option" "string option"
  | Complete string "(string \<times> pyval) list option"
  | Fail string string bool

fun apply_operation :: "TaskManager \<Rightarrow> operation \<Rightarrow> exception + TaskManager" where
  "apply_operation m (Start tid) =
     (case start_task m tid of Inl e \<Rightarrow> Inl e | Inr (t, m') \<Rightarrow> Inr m')"
| "apply_operation m (Checkpoint tid p item n_done n_items ctx note) =
     update_checkpoint m tid p item n_done n_items ctx note"
| "apply_operation m (Complete tid out) =
     (case complete_task m tid out of Inl e \<Rightarrow> Inl e | Inr (t, m') \<Rightarrow> Inr m')"
| "apply_operation m (Fail tid err retry) =
     (case fail_task m tid err retry of Inl e \<Rightarrow> Inl e | Inr (t, m') \<Rightarrow> Inr m')"

fun run :: "TaskManager \<Rightarrow> operation list \<Rightarrow> exception + TaskManager" where
  "run m [] = Inr m"
| "run m (op # ops) = (case apply_operation m op of Inl e \<Rightarrow> Inl e | Inr m' \<Rightarrow> run m' ops)"

text \<open>The tasks of the current list, empty when none is loaded.\<close>

definition current_tasks :: "TaskManager \<Rightarrow> Task list" where
  "current_tasks m = (case current_task_list m of None \<Rightarrow> [] | Some task_list \<Rightarrow> tasks task_list)"

section \<open>Auxiliary notions\<close>

text \<open>
  Two tasks look the same to the dependency test when they have the same id and are
  both completed or both not.  \<open>unblock\<close> is what the unblocking scan does to one task,
  judged against a fixed list.
\<close>

definition same_gate :: "Task \<Rightarrow> Task \<Rightarrow> bool" where
  "same_gate a b = (task_id a = task_id b \<and> (status a = COMPLETED \<longleftrightarrow> status b = COMPLETED))"

definition unblock :: "Task list \<Rightarrow> Task \<Rightarrow> Task" where
  "unblock ts t =
     (if status t = BLOCKED \<and> blocking_dependencies ts t = [] then t\<lparr>status := PENDING\<rparr> else t)"

text \<open>
  What pydantic guarantees of a task list built through its constructors: every
  datetime is a real one, and a checkpoint's \<open>progress_pct\<close> lies in \<open>[0, 100]\<close>.
  A list is JSON-native when the bags of its checkpoints, its outputs and its global
  context hold no tuple.
\<close>

definition native_dict :: "(string \<times> pyval) list \<Rightarrow> bool" where
  "native_dict kvs = list_all (\<lambda>kv. json_native (snd kv)) kvs"

definition opt_all :: "('a \<Rightarrow> bool) \<Rightarrow> 'a option \<Rightarrow> bool" where
  "opt_all P x = (case x of None \<Rightarrow> True | Some v \<Rightarrow> P v)"

definition valid_checkpoint :: "TaskCheckpoint \<Rightarrow> bool" where
  "valid_checkpoint c =
     (valid_datetime (timestamp c) \<and> 0 \<le> cp_progress_pct c \<and> cp_progress_pct c \<le> 100)"

definition valid_task :: "Task \<Rightarrow> bool" where
  "valid_task t =
     (opt_all valid_datetime (started_at t) \<and> opt_all valid_datetime (completed_at t) \<and>
      opt_all valid_checkpoint (checkpoint t))"

definition valid_task_list :: "TaskList \<Rightarrow> bool" where
  "valid_task_list L =
     (valid_datetime (created_at L) \<and> valid_datetime (updated_at L) \<and>
      list_all valid_task (tasks L))"

definition native_task :: "Task \<Rightarrow> bool" where
  "native_task t =
     (opt_all (\<lambda>c. native_dict (cp_context c)) (checkpoint t) \<and>
      opt_all native_dict (task_output t))"

definition native_task_list :: "TaskList \<Rightarrow> bool" where
  "native_task_list L = (list_all native_task (tasks L) \<and> native_dict (global_context L))"

section \<open>Example states\<close>

definition ex_clock :: "nat \<Rightarrow> datetime" where
  "ex_clock n = \<lparr>year = 2026, month = 1, day = 28, hour = 12, minute = 0, second = 0,
                 microsecond = n\<rparr>"

definition ex_task_a :: Task where
  "ex_task_a = new_task ''a'' ''first'' ''First stage'' None None None"

definition ex_task_b :: Task where
  "ex_task_b = (new_task ''b'' ''second'' ''Second stage'' None None None)\<lparr>depends_on := [''a'']\<rparr>"

definition ex_list_of :: "Task list \<Rightarrow> TaskList" where
  "ex_list_of ts =
     \<lparr>list_id = ''demo'', name = ''demo-list'', list_description = None,
      created_at = ex_clock 0, updated_at = ex_clock 0, created_by = ''claude-ai'',
      pipeline = ''biddeed-12-stage'', tasks = ts, session_id = None,
      last_active_task_id = None, global_context = []\<rparr>"

definition ex_manager_of :: "Task list \<Rightarrow> TaskManager" where
  "ex_manager_of ts =
     \<lparr>tasks_dir = [], current_task_list = Some (ex_list_of ts), clock = ex_clock, ticks = 1\<rparr>"

definition ex_list :: TaskList where
  "ex_list = ex_list_of [ex_task_a, ex_task_b]"

definition ex_manager :: TaskManager where
  "ex_manager = ex_manager_of [ex_task_a, ex_task_b]"

text \<open>A task whose only dependency names no task of the list.\<close>

definition ex_task_c :: Task where
  "ex_task_c = (new_task ''c'' ''third'' ''Third stage'' None None None)\<lparr>depends_on := [''ghost'']\<rparr>"

definition ex_task_d :: Task where
  "ex_task_d = new_task ''d'' ''other'' ''Independent stage'' None None None"

text \<open>Two independent tasks: the first is started and left running, the second is
  started and completed.\<close>

definition ex_resume_run :: "exception + TaskManager" where
  "ex_resume_run =
     run (ex_manager_of [ex_task_a, ex_task_d]) [Start ''a'', Start ''d'', Complete ''d'' None]"

text \<open>Task \<open>b\<close> blocked behind task \<open>a\<close>.\<close>

definition ex_blocked_manager :: TaskManager where
  "ex_blocked_manager = ex_manager_of [ex_task_a, ex_task_b\<lparr>status := BLOCKED\<rparr>]"

text \<open>
  A list whose one task carries a checkpoint with a tuple in its context, and the same
  list with an array in the tuple's place.
\<close>

definition ex_ranged_task :: "pyval \<Rightarrow> Task" where
  "ex_ranged_task v =
     ex_task_a\<lparr>status := IN_PROGRESS,
               checkpoint := Some ((fresh_checkpoint (ex_clock 0) 50)\<lparr>cp_context := [(''range'', v)]\<rparr>)\<rparr>"

definition ex_tuple_list :: TaskList where
  "ex_tuple_list = ex_list_of [ex_ranged_task (PyTuple [PyInt 0, PyFloat (21 / 2)])]"

definition ex_array_list :: TaskList where
  "ex_array_list = ex_list_of [ex_ranged_task (PyList [PyInt 0, PyFloat (21 / 2)])]"

text \<open>
  A directory with the file of a well-formed list and a second file that parses as
  JSON and has the three keys the listing reads, with \<open>null\<close> for \<open>updated_at\<close>.
\<close>

definition ex_bad_document :: json where
  "ex_bad_document = JObj [(''id'', JStr ''bad''), (''name'', JStr ''Bad''), (''updated_at'', JNull)]"

definition ex_listing_manager :: TaskManager where
  "ex_listing_manager =
     \<lparr>tasks_dir = [(''demo.json'', Parsed (model_dump ex_list)), (''bad.json'', Parsed ex_bad_document)],
      current_task_list = None, clock = ex_clock, ticks = 1\<rparr>"

text \<open>The same directory with the second file holding text that is not JSON.\<close>

definition ex_corrupt_manager :: TaskManager where
  "ex_corrupt_manager =
     \<lparr>tasks_dir = [(''demo.json'', Parsed (model_dump ex_list)), (''bad.json'', Unparseable)],
      current_task_list = None, clock = ex_clock, ticks = 1\<rparr>"

text \<open>Three tasks, two of them completed.\<close>

definition ex_thirds_list :: TaskList where
  "ex_thirds_list =
     ex_list_of [ex_task_a\<lparr>status := COMPLETED\<rparr>, ex_task_d\<lparr>status := COMPLETED\<rparr>, ex_task_b]"

section \<open>Properties\<close>

subsection \<open>Saving the current list\<close>

lemma commit_current [simp]:
  "current_task_list (commit m L) = Some (L\<lparr>updated_at := clock m (ticks m)\<rparr>)"
  by (simp add: commit_def save_def utcnow_def Let_def)

lemma commit_clock [simp]: "clock (commit m L) = clock m"
  by (simp add: commit_def save_def utcnow_def Let_def)

lemma commit_ticks [simp]: "ticks (commit m L) = Suc (ticks m)"
  by (simp add: commit_def save_def utcnow_def Let_def)

lemma commit_tasks_dir [simp]:
  "tasks_dir (commit m L) =
     AList.update (get_task_file (list_id L))
       (Parsed (model_dump (L\<lparr>updated_at := clock m (ticks m)\<rparr>))) (tasks_dir m)"
  by (simp add: commit_def save_def utcnow_def Let_def)

lemma get_task_commit: "get_task (commit m L) tid = find_task (tasks L) tid"
  by (simp add: get_task_def)

lemma find_task_put_task:
  "find_task ts tid = Some t \<Longrightarrow> task_id t' = tid \<Longrightarrow>
   find_task (put_task tid t' ts) tid = Some t'"
  by (induction ts) (auto simp: find_task_def)

lemma find_task_id: "find_task ts tid = Some t \<Longrightarrow> task_id t = tid"
  by (induction ts) (auto simp: find_task_def split: if_splits)

lemmas ex_defs =
  ex_manager_def ex_manager_of_def ex_list_def ex_list_of_def ex_task_a_def ex_task_b_def
  ex_task_c_def new_task_def get_task_def find_task_def get_blocking_dependencies_def
  blocking_dependencies_def

subsection \<open>Starting a task\<close>

lemma start_task_step:
  assumes "current_task_list m = Some task_list" and "get_task m tid = Some task"
  shows "\<exists>task' m'. start_task m tid = Inr (Some task', m') \<and>
           get_task m' tid = Some task' \<and>
           status task' = (if get_blocking_dependencies m task = [] then IN_PROGRESS else BLOCKED)"
proof -
  from assms have f: "find_task (tasks task_list) tid = Some task"
    by (simp add: get_task_def)
  note i = find_task_id[OF f]
  show ?thesis
    using assms i find_task_put_task[OF f]
    by (simp add: start_task_def Let_def get_task_commit utcnow_def)
qed

lemma no_blocking_iff:
  "blocking_dependencies ts task = [] \<longleftrightarrow>
     (\<forall>d\<in>set (depends_on task). \<forall>dt. find_task ts d = Some dt \<longrightarrow> status dt = COMPLETED)"
  by (auto simp: blocking_dependencies_def filter_empty_conv split: option.splits)

text \<open>
  C1, as the code has it.  For a loaded list and a task of it, \<open>start\<close> returns the task,
  now \<open>in_progress\<close> iff every id in \<open>depends_on\<close> that names a task of the list names a
  \<open>completed\<close> one, and \<open>blocked\<close> otherwise.  An id that names no task of the list does
  not block.
\<close>

theorem start_task_gate:
  assumes "current_task_list m = Some task_list" and "get_task m tid = Some task"
  shows "\<exists>task' m'. start_task m tid = Inr (Some task', m') \<and>
           get_task m' tid = Some task' \<and>
           (status task' = IN_PROGRESS \<longleftrightarrow>
              (\<forall>d\<in>set (depends_on task). \<forall>dt. get_task m d = Some dt \<longrightarrow> status dt = COMPLETED)) \<and>
           (status task' \<noteq> IN_PROGRESS \<longrightarrow> status task' = BLOCKED)"
proof -
  have "get_blocking_dependencies m task = [] \<longleftrightarrow>
        (\<forall>d\<in>set (depends_on task). \<forall>dt. get_task m d = Some dt \<longrightarrow> status dt = COMPLETED)"
    using assms(1) by (simp add: get_blocking_dependencies_def get_task_def no_blocking_iff)
  moreover from start_task_step[OF assms] obtain task' m' where
    r: "start_task m tid = Inr (Some task', m')" "get_task m' tid = Some task'"
       "status task' = (if get_blocking_dependencies m task = [] then IN_PROGRESS else BLOCKED)"
    by blast
  ultimately have "status task' = IN_PROGRESS \<longleftrightarrow>
      (\<forall>d\<in>set (depends_on task). \<forall>dt. get_task m d = Some dt \<longrightarrow> status dt = COMPLETED)"
    and "status task' \<noteq> IN_PROGRESS \<longrightarrow> status task' = BLOCKED"
    by (simp_all split: if_splits)
  with r(1,2) show ?thesis by blast
qed

text \<open>
  The theorem at two inputs: task \<open>b\<close>, whose dependency \<open>a\<close> is still pending, comes back
  blocked; task \<open>a\<close>, which depends on nothing, comes back in progress.
\<close>

theorem start_task_gate_witness:
  "(\<exists>task' m'. start_task ex_manager ''b'' = Inr (Some task', m') \<and> status task' = BLOCKED) \<and>
   (\<exists>task' m'. start_task ex_manager ''a'' = Inr (Some task', m') \<and> status task' = IN_PROGRESS)"
proof -
  have c: "current_task_list ex_manager = Some ex_list"
    by (simp add: ex_defs)
  have b: "get_task ex_manager ''b'' = Some ex_task_b"
    by (simp add: ex_defs)
  have a: "get_task ex_manager ''a'' = Some ex_task_a"
    by (simp add: ex_defs)
  have nb: "\<not> (\<forall>d\<in>set (depends_on ex_task_b).
              \<forall>dt. get_task ex_manager d = Some dt \<longrightarrow> status dt = COMPLETED)"
    by (simp add: ex_defs)
  have na: "\<forall>d\<in>set (depends_on ex_task_a).
              \<forall>dt. get_task ex_manager d = Some dt \<longrightarrow> status dt = COMPLETED"
    by (simp add: ex_defs)
  from start_task_gate[OF c b] nb
  have "\<exists>task' m'. start_task ex_manager ''b'' = Inr (Some task', m') \<and> status task' = BLOCKED"
    by blast
  moreover from start_task_gate[OF c a] na
  have "\<exists>task' m'. start_task ex_manager ''a'' = Inr (Some task', m') \<and> status task' = IN_PROGRESS"
    by blast
  ultimately show ?thesis by blast
qed

text \<open>
  C1 as stated fails: task \<open>c\<close> depends on the id \<open>ghost\<close>, which names no task of the
  list, so not every id in \<open>depends_on\<close> refers to a completed task; \<open>start\<close> still puts
  the task in progress.
\<close>

theorem start_task_dangling_counterexample:
  "depends_on ex_task_c = [''ghost''] \<and>
   get_task (ex_manager_of [ex_task_c]) ''ghost'' = None \<and>
   map_sum (\<lambda>e. e) (\<lambda>r. map_option status (fst r)) (start_task (ex_manager_of [ex_task_c]) ''c'')
     = Inr (Some IN_PROGRESS)"
  by (simp add: ex_defs start_task_def utcnow_def Let_def)

text \<open>
  C10.  When \<open>start\<close> is called on a task of the loaded list that has an incomplete
  dependency, the task returned, and now in the list, is the old one with only its
  status changed, to \<open>blocked\<close>: \<open>started_at\<close>, \<open>checkpoint\<close>, \<open>output\<close>, \<open>error\<close> and
  \<open>retry_count\<close> are as before.  No other task changes, \<open>last_active_task_id\<close> is as
  before, and the file of the list holds the list in this new state.
\<close>

theorem start_task_blocked_frame:
  assumes "current_task_list m = Some task_list"
    and "get_task m tid = Some task"
    and "get_blocking_dependencies m task \<noteq> []"
  shows "\<exists>m' task' stamped.
           start_task m tid = Inr (Some task', m') \<and>
           task' = task\<lparr>status := BLOCKED\<rparr> \<and>
           started_at task' = started_at task \<and> checkpoint task' = checkpoint task \<and>
           task_output task' = task_output task \<and> error task' = error task \<and>
           retry_count task' = retry_count task \<and>
           current_task_list m' = Some stamped \<and>
           find_task (tasks stamped) tid = Some task' \<and>
           tasks stamped = put_task tid task' (tasks task_list) \<and>
           last_active_task_id stamped = last_active_task_id task_list \<and>
           map_of (tasks_dir m') (get_task_file (list_id task_list)) =
             Some (Parsed (model_dump stamped))"
proof -
  from assms(1,2) have f: "find_task (tasks task_list) tid = Some task"
    by (simp add: get_task_def)
  have i: "task_id (task\<lparr>status := BLOCKED\<rparr>) = tid"
    using find_task_id[OF f] by simp
  show ?thesis
    using assms find_task_put_task[OF f i]
    by (simp add: start_task_def Let_def update_conv')
qed

theorem start_task_blocked_frame_witness:
  "get_blocking_dependencies ex_manager ex_task_b = [''a''] \<and>
   (\<exists>m'. start_task ex_manager ''b'' = Inr (Some (ex_task_b\<lparr>status := BLOCKED\<rparr>), m') \<and>
          map_option last_active_task_id (current_task_list m') = Some None)"
proof -
  have c: "current_task_list ex_manager = Some ex_list"
    by (simp add: ex_defs)
  have b: "get_task ex_manager ''b'' = Some ex_task_b"
    by (simp add: ex_defs)
  have d: "get_blocking_dependencies ex_manager ex_task_b = [''a'']"
    by (simp add: ex_defs)
  then have n: "get_blocking_dependencies ex_manager ex_task_b \<noteq> []"
    by simp
  have l: "last_active_task_id ex_list = None"
    by (simp add: ex_defs)
  from start_task_blocked_frame[OF c b n] l d show ?thesis
    by auto
qed

subsection \<open>Failing a task\<close>

lemma fail_task_step:
  assumes "current_task_list m = Some task_list" and "get_task m tid = Some task"
  shows "\<exists>m'. fail_task m tid err retry =
           Inr (Some (task\<lparr>retry_count := retry_count task + 1, error := Some err,
                          status := (if retry \<and> retry_count task + 1 < max_retries task
                                     then status task else FAILED)\<rparr>), m') \<and>
          (\<exists>L'. current_task_list m' = Some L') \<and>
          get_task m' tid =
            Some (task\<lparr>retry_count := retry_count task + 1, error := Some err,
                        status := (if retry \<and> retry_count task + 1 < max_retries task
                                   then status task else FAILED)\<rparr>)"
proof -
  from assms have f: "find_task (tasks task_list) tid = Some task"
    by (simp add: get_task_def)
  note i = find_task_id[OF f]
  show ?thesis
  proof (cases "retry \<and> retry_count task + 1 < max_retries task")
    case True
    have "find_task (put_task tid (task\<lparr>retry_count := retry_count task + 1, error := Some err\<rparr>)
            (tasks task_list)) tid =
          Some (task\<lparr>retry_count := retry_count task + 1, error := Some err\<rparr>)"
      using find_task_put_task[OF f] i by simp
    with True assms show ?thesis
      by (simp add: fail_task_def Let_def get_task_commit)
  next
    case False
    have "find_task (put_task tid
             (task\<lparr>retry_count := retry_count task + 1, status := FAILED, error := Some err\<rparr>)
            (tasks task_list)) tid =
          Some (task\<lparr>retry_count := retry_count task + 1, status := FAILED, error := Some err\<rparr>)"
      using find_task_put_task[OF f] i by simp
    with False assms show ?thesis
      by (auto simp add: fail_task_def Let_def get_task_commit)
  qed
qed

text \<open>
  C4.  For a task of the loaded list, \<open>fail\<close> returns the task with \<open>retry_count\<close> one
  higher and the error recorded; its status is \<open>failed\<close> when the new \<open>retry_count\<close> has
  reached \<open>max_retries\<close> or the caller passed \<open>retry=False\<close>, and is the old status
  otherwise.  With \<open>max_retries = 3\<close> and no retry so far, three calls with
  \<open>retry=True\<close> give \<open>retry_count\<close> 1, 2, 3, the status unchanged after the first two and
  \<open>failed\<close> after the third.
\<close>

theorem fail_task_retry:
  assumes "current_task_list m = Some task_list" and "get_task m tid = Some task"
  shows "(\<exists>task' m'. fail_task m tid err retry = Inr (Some task', m') \<and>
            get_task m' tid = Some task' \<and>
            retry_count task' = retry_count task + 1 \<and>
            error task' = Some err \<and>
            (if max_retries task' \<le> retry_count task' \<or> \<not> retry
             then status task' = FAILED else status task' = status task)) \<and>
         (max_retries task = 3 \<and> retry_count task = 0 \<longrightarrow>
            (\<exists>t1 m1 t2 m2 t3 m3.
               fail_task m tid e1 True = Inr (Some t1, m1) \<and>
               fail_task m1 tid e2 True = Inr (Some t2, m2) \<and>
               fail_task m2 tid e3 True = Inr (Some t3, m3) \<and>
               retry_count t1 = 1 \<and> retry_count t2 = 2 \<and> retry_count t3 = 3 \<and>
               status t1 = status task \<and> status t2 = status task \<and> status t3 = FAILED))"
proof (intro conjI impI)
  show "\<exists>task' m'. fail_task m tid err retry = Inr (Some task', m') \<and>
            get_task m' tid = Some task' \<and>
            retry_count task' = retry_count task + 1 \<and>
            error task' = Some err \<and>
            (if max_retries task' \<le> retry_count task' \<or> \<not> retry
             then status task' = FAILED else status task' = status task)"
  proof -
    define t' where "t' = task\<lparr>retry_count := retry_count task + 1, error := Some err,
                          status := (if retry \<and> retry_count task + 1 < max_retries task
                                     then status task else FAILED)\<rparr>"
    from fail_task_step[OF assms, of err retry] obtain m' where
      r: "fail_task m tid err retry = Inr (Some t', m')" "get_task m' tid = Some t'"
      unfolding t'_def by blast
    have p: "retry_count t' = retry_count task + 1" "error t' = Some err"
      "(if max_retries t' \<le> retry_count t' \<or> \<not> retry
        then status t' = FAILED else status t' = status task)"
      by (auto simp: t'_def)
    from r p show ?thesis by blast
  qed
next
  assume a: "max_retries task = 3 \<and> retry_count task = 0"
  from fail_task_step[OF assms, of e1 True] a obtain m1 L1 t1 where
    s1: "fail_task m tid e1 True = Inr (Some t1, m1)" "current_task_list m1 = Some L1"
        "get_task m1 tid = Some t1" "retry_count t1 = 1" "max_retries t1 = 3"
        "status t1 = status task"
    by auto
  from fail_task_step[OF s1(2,3), of e2 True] s1(4,5,6) obtain m2 L2 t2 where
    s2: "fail_task m1 tid e2 True = Inr (Some t2, m2)" "current_task_list m2 = Some L2"
        "get_task m2 tid = Some t2" "retry_count t2 = 2" "max_retries t2 = 3"
        "status t2 = status task"
    by auto
  from fail_task_step[OF s2(2,3), of e3 True] s2(4,5,6) obtain m3 t3 where
    s3: "fail_task m2 tid e3 True = Inr (Some t3, m3)" "retry_count t3 = 3" "status t3 = FAILED"
    by auto
  from s1 s2 s3 show "\<exists>t1 m1 t2 m2 t3 m3.
               fail_task m tid e1 True = Inr (Some t1, m1) \<and>
               fail_task m1 tid e2 True = Inr (Some t2, m2) \<and>
               fail_task m2 tid e3 True = Inr (Some t3, m3) \<and>
               retry_count t1 = 1 \<and> retry_count t2 = 2 \<and> retry_count t3 = 3 \<and>
               status t1 = status task \<and> status t2 = status task \<and> status t3 = FAILED"
    by blast
qed

theorem fail_task_retry_witness:
  "max_retries ex_task_a = 3 \<and> retry_count ex_task_a = 0 \<and>
   (\<exists>t1 m1 t2 m2 t3 m3.
      fail_task ex_manager ''a'' ''timeout'' True = Inr (Some t1, m1) \<and>
      fail_task m1 ''a'' ''timeout'' True = Inr (Some t2, m2) \<and>
      fail_task m2 ''a'' ''timeout'' True = Inr (Some t3, m3) \<and>
      retry_count t1 = 1 \<and> retry_count t2 = 2 \<and> retry_count t3 = 3 \<and>
      status t1 = PENDING \<and> status t2 = PENDING \<and> status t3 = FAILED)"
proof -
  have c: "current_task_list ex_manager = Some ex_list"
    by (simp add: ex_defs)
  have a: "get_task ex_manager ''a'' = Some ex_task_a"
    by (simp add: ex_defs)
  have p: "max_retries ex_task_a = 3 \<and> retry_count ex_task_a = 0"
    by (simp add: ex_defs)
  have s: "status ex_task_a = PENDING"
    by (simp add: ex_defs)
  from fail_task_retry[OF c a, of "''timeout''" True "''timeout''" "''timeout''" "''timeout''"] p s
  show ?thesis by simp
qed

subsection \<open>Completing a task\<close>

lemma blocking_dependencies_cong:
  assumes "list_all2 same_gate xs ys"
  shows "blocking_dependencies xs t = blocking_dependencies ys t"
proof -
  have "\<And>d. (case find_task xs d of None \<Rightarrow> False | Some dt \<Rightarrow> status dt \<noteq> COMPLETED) =
             (case find_task ys d of None \<Rightarrow> False | Some dt \<Rightarrow> status dt \<noteq> COMPLETED)"
    using assms
    by (induction xs ys rule: list_all2_induct) (auto simp: find_task_def same_gate_def)
  then show ?thesis by (simp add: blocking_dependencies_def)
qed

lemma same_gate_unblock: "same_gate (unblock ts t) t"
  by (simp add: unblock_def same_gate_def)

lemma same_gate_refl: "same_gate t t"
  by (simp add: same_gate_def)

lemma update_blocked_prefix:
  "k \<le> length ts \<Longrightarrow>
   fold update_blocked_step [0..<k] ts = map (unblock ts) (take k ts) @ drop k ts"
proof (induction k)
  case 0
  then show ?case by simp
next
  case (Suc k)
  then have k: "k < length ts" by simp
  let ?cur = "map (unblock ts) (take k ts) @ drop k ts"
  have ih: "fold update_blocked_step [0..<k] ts = ?cur"
    using Suc by simp
  have len: "length (take k ts) = k" using k by simp
  have nth: "?cur ! k = ts ! k"
    using k by (simp add: nth_append)
  have rel: "list_all2 same_gate ?cur ts"
  proof -
    have "list_all2 same_gate (map (unblock ts) (take k ts) @ drop k ts) (take k ts @ drop k ts)"
      by (intro list_all2_appendI)
         (simp_all add: list_all2_map1 list_all2_same same_gate_unblock same_gate_refl list.rel_refl)
    then show ?thesis by simp
  qed
  have bd: "blocking_dependencies ?cur (ts ! k) = blocking_dependencies ts (ts ! k)"
    by (rule blocking_dependencies_cong[OF rel])
  have keep: "?cur[k := ts ! k] = ?cur"
    using list_update_id[of ?cur k] nth by simp
  have step: "update_blocked_step k ?cur = ?cur[k := unblock ts (ts ! k)]"
    by (simp add: update_blocked_step_def Let_def nth bd unblock_def keep)
  have upd: "?cur[k := unblock ts (ts ! k)] =
             map (unblock ts) (take (Suc k) ts) @ drop (Suc k) ts"
    using k
    by (simp add: list_update_append take_Suc_conv_app_nth Cons_nth_drop_Suc[symmetric]
          del: Cons_nth_drop_Suc)
  have "fold update_blocked_step [0..<Suc k] ts =
        update_blocked_step k (fold update_blocked_step [0..<k] ts)"
    by simp
  then show ?case
    by (simp only: ih step upd)
qed

lemma update_blocked_map: "update_blocked ts = map (unblock ts) ts"
  using update_blocked_prefix[of "length ts" ts] by (simp add: update_blocked_def)


lemma find_task_map_unblock:
  "find_task (map (unblock us) ts) tid = map_option (unblock us) (find_task ts tid)"
  by (induction ts) (auto simp: find_task_def unblock_def)

lemma length_put_task [simp]: "length (put_task tid t ts) = length ts"
  by (induction ts) auto

lemma list_all2_unblock: "list_all2 same_gate (map (unblock us) ts) ts"
  by (simp add: list_all2_map1 list.rel_refl same_gate_unblock)

lemma complete_task_step:
  assumes "current_task_list m = Some task_list" and "get_task m tid = Some task"
  shows "\<exists>done_task m' before.
           complete_task m tid out = Inr (Some done_task, m') \<and>
           status done_task = COMPLETED \<and>
           task_output done_task = out \<and>
           completed_at done_task = Some (clock m (ticks m)) \<and>
           started_at done_task = started_at task \<and>
           error done_task = error task \<and>
           retry_count done_task = retry_count task \<and>
           before = put_task tid done_task (tasks task_list) \<and>
           find_task (map (unblock before) before) tid = Some done_task \<and>
           current_task_list m' =
             Some (task_list\<lparr>tasks := map (unblock before) before,
                             updated_at := clock m (Suc (Suc (ticks m)))\<rparr>) \<and>
           clock m' = clock m \<and> ticks m' = ticks m + 3"
proof -
  from assms have f: "find_task (tasks task_list) tid = Some task"
    by (simp add: get_task_def)
  note i = find_task_id[OF f]
  define t1 where "t1 = task\<lparr>status := COMPLETED, completed_at := Some (clock m (ticks m)),
                             task_output := out\<rparr>"
  define t2 where "t2 = (case started_at t1 of None \<Rightarrow> t1
      | Some t_start \<Rightarrow> t1\<lparr>actual_minutes := Some (minutes_between t_start (clock m (ticks m)))\<rparr>)"
  define t3 where "t3 = t2\<lparr>checkpoint := Some (fresh_checkpoint (clock m (Suc (ticks m))) 100)\<rparr>"
  define before where "before = put_task tid t3 (tasks task_list)"
  have p: "status t3 = COMPLETED" "task_id t3 = tid" "task_output t3 = out"
    "completed_at t3 = Some (clock m (ticks m))" "started_at t3 = started_at task"
    "error t3 = error task" "retry_count t3 = retry_count task"
    using i by (auto simp: t3_def t2_def t1_def split: option.splits)
  have fb: "find_task before tid = Some t3"
    unfolding before_def using find_task_put_task[OF f p(2)] .
  have fu: "find_task (update_blocked before) tid = Some t3"
    using fb p(1) by (simp add: update_blocked_map find_task_map_unblock unblock_def)
  have "complete_task m tid out =
          Inr (Some t3, commit (m\<lparr>ticks := Suc (Suc (ticks m))\<rparr>)
                          (task_list\<lparr>tasks := update_blocked before\<rparr>))"
    using assms fu
    unfolding before_def t3_def t2_def t1_def
    by (simp add: complete_task_def utcnow_def Let_def)
  then show ?thesis
    using p fu by (simp add: update_blocked_map before_def)
qed

text \<open>
  C3, as the code has it.  \<open>complete\<close> on a task of the loaded list sets it to
  \<open>completed\<close>, writes it back (the list \<open>before\<close> below) and scans the list.  After the
  scan a task is pending in place of blocked when it was blocked and none of its
  dependency ids names a task that is not completed; an id that names no task of the
  list is ignored.  Every other task, so every task with a dependency id that names a
  task not completed, is exactly as before the scan.  The completed task stays
  completed.
\<close>

theorem complete_task_unblocks:
  assumes "current_task_list m = Some task_list" and "get_task m tid = Some task"
  shows "\<exists>done_task m' stamped before.
           complete_task m tid out = Inr (Some done_task, m') \<and>
           current_task_list m' = Some stamped \<and>
           status done_task = COMPLETED \<and>
           find_task (tasks stamped) tid = Some done_task \<and>
           before = put_task tid done_task (tasks task_list) \<and>
           length (tasks stamped) = length before \<and>
           (\<forall>i<length before.
              tasks stamped ! i =
                (if status (before ! i) = BLOCKED \<and>
                    (\<forall>d\<in>set (depends_on (before ! i)).
                       \<forall>dt. find_task (tasks stamped) d = Some dt \<longrightarrow> status dt = COMPLETED)
                 then (before ! i)\<lparr>status := PENDING\<rparr>
                 else before ! i))"
proof -
  from complete_task_step[OF assms, of out] obtain done_task m' before where
    r: "complete_task m tid out = Inr (Some done_task, m')" "status done_task = COMPLETED"
       "before = put_task tid done_task (tasks task_list)"
       "find_task (map (unblock before) before) tid = Some done_task"
       "current_task_list m' =
          Some (task_list\<lparr>tasks := map (unblock before) before,
                          updated_at := clock m (Suc (Suc (ticks m)))\<rparr>)"
    by blast
  define stamped where "stamped = task_list\<lparr>tasks := map (unblock before) before,
                          updated_at := clock m (Suc (Suc (ticks m)))\<rparr>"
  have ts: "tasks stamped = map (unblock before) before"
    by (simp add: stamped_def)
  have bd: "\<And>t. blocking_dependencies (tasks stamped) t = blocking_dependencies before t"
    unfolding ts by (rule blocking_dependencies_cong[OF list_all2_unblock])
  have scan: "tasks stamped ! i =
                (if status (before ! i) = BLOCKED \<and>
                    (\<forall>d\<in>set (depends_on (before ! i)).
                       \<forall>dt. find_task (tasks stamped) d = Some dt \<longrightarrow> status dt = COMPLETED)
                 then (before ! i)\<lparr>status := PENDING\<rparr>
                 else before ! i)"
    if "i < length before" for i
  proof -
    have n: "tasks stamped ! i = unblock before (before ! i)"
      using that by (simp add: ts)
    have "(blocking_dependencies before (before ! i) = []) =
          (\<forall>d\<in>set (depends_on (before ! i)).
             \<forall>dt. find_task (tasks stamped) d = Some dt \<longrightarrow> status dt = COMPLETED)"
      unfolding bd[symmetric] by (rule no_blocking_iff)
    then show ?thesis
      by (simp add: n unblock_def)
  qed
  have "length (tasks stamped) = length before"
    by (simp add: ts)
  moreover have "find_task (tasks stamped) tid = Some done_task"
    using r(4) by (simp add: ts)
  ultimately show ?thesis
    using r scan unfolding stamped_def[symmetric] by blast
qed

theorem complete_task_unblocks_witness:
  "\<exists>done_task m' stamped.
     complete_task ex_blocked_manager ''a'' None = Inr (Some done_task, m') \<and>
     current_task_list m' = Some stamped \<and>
     status done_task = COMPLETED \<and>
     tasks stamped ! 1 = ex_task_b\<lparr>status := PENDING\<rparr>"
proof -
  have c: "current_task_list ex_blocked_manager =
             Some (ex_list_of [ex_task_a, ex_task_b\<lparr>status := BLOCKED\<rparr>])"
    by (simp add: ex_blocked_manager_def ex_manager_of_def)
  have a: "get_task ex_blocked_manager ''a'' = Some ex_task_a"
    by (simp add: ex_blocked_manager_def ex_defs)
  from complete_task_unblocks[OF c a, of None] obtain done_task m' stamped before where
    r: "complete_task ex_blocked_manager ''a'' None = Inr (Some done_task, m')"
       "current_task_list m' = Some stamped" "status done_task = COMPLETED"
       "find_task (tasks stamped) ''a'' = Some done_task"
       "before = put_task ''a'' done_task (tasks (ex_list_of [ex_task_a, ex_task_b\<lparr>status := BLOCKED\<rparr>]))"
       "\<forall>i<length before.
          tasks stamped ! i =
            (if status (before ! i) = BLOCKED \<and>
                (\<forall>d\<in>set (depends_on (before ! i)).
                   \<forall>dt. find_task (tasks stamped) d = Some dt \<longrightarrow> status dt = COMPLETED)
             then (before ! i)\<lparr>status := PENDING\<rparr>
             else before ! i)"
    by blast
  have b: "before = [done_task, ex_task_b\<lparr>status := BLOCKED\<rparr>]"
    by (simp add: r(5) ex_defs)
  have g: "status (before ! 1) = BLOCKED \<and>
        (\<forall>d\<in>set (depends_on (before ! 1)).
           \<forall>dt. find_task (tasks stamped) d = Some dt \<longrightarrow> status dt = COMPLETED)"
    using r(3,4) by (simp add: b ex_defs)
  have "1 < length before"
    by (simp add: b)
  with r(6) have "tasks stamped ! 1 =
            (if status (before ! 1) = BLOCKED \<and>
                (\<forall>d\<in>set (depends_on (before ! 1)).
                   \<forall>dt. find_task (tasks stamped) d = Some dt \<longrightarrow> status dt = COMPLETED)
             then (before ! 1)\<lparr>status := PENDING\<rparr>
             else before ! 1)"
    by blast
  with g have "tasks stamped ! 1 = (before ! 1)\<lparr>status := PENDING\<rparr>"
    by simp
  then have "tasks stamped ! 1 = ex_task_b\<lparr>status := PENDING\<rparr>"
    by (simp add: b)
  with r(1,2,3) show ?thesis by blast
qed

text \<open>
  C3 as stated fails where a dependency id names no task of the list.  Task \<open>c\<close> is
  blocked and depends on the id \<open>ghost\<close> only, so it has a dependency that is not
  completed; completing task \<open>a\<close> runs the scan, and the scan changes \<open>c\<close> to pending.
\<close>

theorem complete_task_dangling_counterexample:
  "depends_on ex_task_c = [''ghost''] \<and>
   map_sum (\<lambda>e. e)
     (\<lambda>r. (map_option status (get_task (snd r) ''ghost''),
           map (\<lambda>t. (task_id t, status t)) (current_tasks (snd r))))
     (complete_task (ex_manager_of [ex_task_a, ex_task_c\<lparr>status := BLOCKED\<rparr>]) ''a'' None)
     = Inr (None, [(''a'', COMPLETED), (''c'', PENDING)])"
  by (simp add: ex_defs complete_task_def utcnow_def Let_def update_blocked_map unblock_def
        current_tasks_def)

subsection \<open>Saving and loading\<close>

lemma load_dump_any: "json_native v \<Longrightarrow> load_any (dump_any v) = v"
proof (induction v)
  case (PyList xs)
  then show ?case by (simp add: list_all_iff map_idI)
next
  case (PyDict kvs)
  have "map (map_prod (\<lambda>k. k) load_any \<circ> map_prod (\<lambda>k. k) dump_any) kvs = kvs"
  proof (rule map_idI)
    fix kv assume kv: "kv \<in> set kvs"
    obtain k v where e: "kv = (k, v)" by (cases kv)
    from PyDict.prems kv e have "json_native v" by (auto simp: list_all_iff)
    with PyDict.IH[of kv v] kv e show "(map_prod (\<lambda>k. k) load_any \<circ> map_prod (\<lambda>k. k) dump_any) kv = kv"
      by simp
  qed
  then show ?case by simp
qed simp_all

lemma read_dump_dict: "native_dict kvs \<Longrightarrow> read_dict (dump_dict kvs) = Some kvs"
proof -
  assume n: "native_dict kvs"
  have "map (map_prod (\<lambda>k. k) load_any \<circ> map_prod (\<lambda>k. k) dump_any) kvs = kvs"
  proof (rule map_idI)
    fix kv assume kv: "kv \<in> set kvs"
    obtain k v where e: "kv = (k, v)" by (cases kv)
    from n kv e have "json_native v" by (auto simp: native_dict_def list_all_iff)
    then show "(map_prod (\<lambda>k. k) load_any \<circ> map_prod (\<lambda>k. k) dump_any) kv = kv"
      by (simp add: e load_dump_any)
  qed
  then show ?thesis by (simp add: read_dict_def dump_dict_def)
qed

lemma digit_val_digit: "d < 10 \<Longrightarrow> digit_val (digit d) = Some d"
  by (simp add: digit_val_def digit_def Let_def)

lemma parse_nat_append:
  "parse_nat acc (xs @ ys) = (case parse_nat acc xs of None \<Rightarrow> None | Some a \<Rightarrow> parse_nat a ys)"
  by (induction xs arbitrary: acc) (auto split: option.splits)

lemma parse_pad2: "n < 100 \<Longrightarrow> parse_nat acc (pad2 n) = Some (100 * acc + n)"
proof -
  assume n: "n < 100"
  then have a: "n div 10 mod 10 < 10" "n mod 10 < 10" by simp_all
  from n have "n div 10 mod 10 = n div 10" by simp
  then have "10 * (n div 10 mod 10) + n mod 10 = n" by simp
  then show ?thesis
    using a by (simp add: pad2_def digit_val_digit)
qed

lemma parse_pad4: "n < 10000 \<Longrightarrow> parse_nat acc (pad4 n) = Some (10000 * acc + n)"
proof -
  assume n: "n < 10000"
  then have a: "n div 100 < 100" "n mod 100 < 100" by simp_all
  have "100 * (n div 100) + n mod 100 = n" by simp
  then show ?thesis
    using a by (simp add: pad4_def parse_nat_append parse_pad2)
qed

lemma parse_pad6: "n < 1000000 \<Longrightarrow> parse_nat acc (pad6 n) = Some (1000000 * acc + n)"
proof -
  assume n: "n < 1000000"
  then have a: "n div 10000 < 100" "n mod 10000 < 10000" by simp_all
  have "10000 * (n div 10000) + n mod 10000 = n" by simp
  then show ?thesis
    using a by (simp add: pad6_def parse_nat_append parse_pad2 parse_pad4)
qed

lemma length_pad2 [simp]: "length (pad2 n) = 2" by (simp add: pad2_def)
lemma length_pad4 [simp]: "length (pad4 n) = 4" by (simp add: pad4_def)
lemma length_pad6 [simp]: "length (pad6 n) = 6" by (simp add: pad6_def)

lemma days_in_month_le: "days_in_month y m \<le> 31"
  by (simp add: days_in_month_def)

lemma fromisoformat_isoformat:
  assumes "valid_datetime d"
  shows "fromisoformat (isoformat d) = Some d"
proof -
  from assms have b: "year d < 10000" "month d < 100" "day d < 100" "hour d < 100"
    "minute d < 100" "second d < 100" "microsecond d < 1000000"
    using days_in_month_le[of "year d" "month d"] by (auto simp: valid_datetime_def)
  show ?thesis
  proof (cases d)
    case (fields y mo dd h mi se us)
    show ?thesis
    proof (cases "us = 0")
      case True
      then show ?thesis
        using assms b fields
        by (simp add: fromisoformat_def isoformat_def nth_append parse_pad2 parse_pad4)
    next
      case False
      then show ?thesis
        using assms b fields
        by (simp add: fromisoformat_def isoformat_def nth_append parse_pad2 parse_pad4 parse_pad6)
    qed
  qed
qed


lemma those_map_inverse:
  "(\<And>x. x \<in> set xs \<Longrightarrow> f (g x) = Some x) \<Longrightarrow> those (map (\<lambda>x. f (g x)) xs) = Some xs"
  by (induction xs) auto

lemma read_dump_str [simp]: "read_str (JStr s) = Some s"
  by (simp add: read_str_def)

lemma read_dump_int [simp]: "read_int (JInt i) = Some i"
  by (simp add: read_int_def)

lemma those_map_Some [simp]: "those (map Some xs) = Some xs"
  by (induction xs) auto

lemma read_dump_strs [simp]: "read_list read_str (dump_strs xs) = Some xs"
  by (simp add: read_list_def dump_strs_def comp_def)

lemma read_opt_None [simp]: "read_opt f (dump_opt g None) = Some None"
  by (simp add: read_opt_def dump_opt_def)

lemma read_opt_Some:
  "g v \<noteq> JNull \<Longrightarrow> read_opt f (dump_opt g (Some v)) = map_option Some (f (g v))"
  by (cases "g v") (simp_all add: read_opt_def dump_opt_def)

lemma read_dump_opt_str [simp]: "read_opt read_str (dump_opt JStr x) = Some x"
  by (cases x) (simp_all add: read_opt_Some)

lemma read_dump_opt_int [simp]: "read_opt read_int (dump_opt JInt x) = Some x"
  by (cases x) (simp_all add: read_opt_Some)

lemma read_dump_datetime: "valid_datetime d \<Longrightarrow> read_datetime (dump_datetime d) = Some d"
  by (simp add: read_datetime_def dump_datetime_def fromisoformat_isoformat)

lemma read_dump_opt_datetime:
  "opt_all valid_datetime x \<Longrightarrow> read_opt read_datetime (dump_opt dump_datetime x) = Some x"
proof (cases x)
  case (Some d)
  assume "opt_all valid_datetime x"
  with Some have "valid_datetime d" by (simp add: opt_all_def)
  moreover have "dump_datetime d \<noteq> JNull" by (simp add: dump_datetime_def)
  ultimately show ?thesis
    using Some by (simp add: read_opt_Some read_dump_datetime)
qed simp

lemma read_dump_opt_dict:
  "opt_all native_dict x \<Longrightarrow> read_opt read_dict (dump_opt dump_dict x) = Some x"
proof (cases x)
  case (Some d)
  assume "opt_all native_dict x"
  with Some have "native_dict d" by (simp add: opt_all_def)
  moreover have "dump_dict d \<noteq> JNull" by (simp add: dump_dict_def)
  ultimately show ?thesis
    using Some by (simp add: read_opt_Some read_dump_dict)
qed simp

lemma read_dump_status [simp]: "read_status (JStr (status_value s)) = Some s"
  by (cases s) (simp_all add: read_status_def all_statuses_def)

lemma read_dump_priority [simp]: "read_priority (JStr (priority_value p)) = Some p"
  by (cases p) (simp_all add: read_priority_def)

lemma read_dump_checkpoint:
  assumes "valid_checkpoint c" and "native_dict (cp_context c)"
  shows "read_checkpoint (dump_checkpoint c) = Some c"
  using assms
  by (simp add: read_checkpoint_def dump_checkpoint_def field_def valid_checkpoint_def
        read_dump_datetime read_dump_dict)

lemma read_dump_opt_checkpoint:
  assumes "opt_all valid_checkpoint x" and "opt_all (\<lambda>c. native_dict (cp_context c)) x"
  shows "read_opt read_checkpoint (dump_opt dump_checkpoint x) = Some x"
proof (cases x)
  case (Some c)
  with assms have "valid_checkpoint c" "native_dict (cp_context c)"
    by (simp_all add: opt_all_def)
  moreover have "dump_checkpoint c \<noteq> JNull" by (simp add: dump_checkpoint_def)
  ultimately show ?thesis
    using Some by (simp add: read_opt_Some read_dump_checkpoint)
qed simp

lemma read_dump_task:
  assumes "valid_task t" and "native_task t"
  shows "read_task (dump_task t) = Some t"
  using assms
  by (simp add: read_task_def dump_task_def field_def valid_task_def native_task_def
        read_dump_opt_datetime read_dump_opt_checkpoint read_dump_opt_dict)

lemma validate_model_dump:
  assumes "valid_task_list L" and "native_task_list L"
  shows "validate_task_list (model_dump L) = Some L"
proof -
  have "those (map (\<lambda>t. read_task (dump_task t)) (tasks L)) = Some (tasks L)"
    using assms
    by (intro those_map_inverse read_dump_task)
       (auto simp: valid_task_list_def native_task_list_def list_all_iff)
  then show ?thesis
    using assms
    by (simp add: validate_task_list_def model_dump_def field_def read_list_def comp_def
          valid_task_list_def native_task_list_def read_dump_datetime read_dump_dict)
qed

lemma load_after_save:
  assumes "valid_task_list L" and "native_task_list L"
    and "map_of files (get_task_file task_list_id) = Some (Parsed (model_dump L))"
  shows "load (m\<lparr>tasks_dir := files\<rparr>) task_list_id =
           Inr (Some L, m\<lparr>tasks_dir := files, current_task_list := Some L\<rparr>)"
  using assms validate_model_dump[OF assms(1,2)]
  by (simp add: load_def model_dump_def)

lemma valid_stamped:
  "valid_task_list L \<Longrightarrow> valid_datetime now \<Longrightarrow> valid_task_list (L\<lparr>updated_at := now\<rparr>)"
  by (simp add: valid_task_list_def)

lemma native_stamped: "native_task_list L \<Longrightarrow> native_task_list (L\<lparr>updated_at := now\<rparr>)"
  by (simp add: native_task_list_def)

text \<open>
  C5, as the code has it.  For a valid task list whose bags (checkpoint contexts,
  outputs, global context) hold only \<open>None\<close>, booleans, integers, finite floats,
  strings, and lists and string-keyed dictionaries of these, \<open>save\<close> stamps \<open>updated_at\<close>
  on the list and a \<open>load\<close> of the same id then returns a list equal to the stamped one,
  field for field.
\<close>

theorem save_load_roundtrip:
  assumes "valid_task_list L" and "native_task_list L"
    and "valid_datetime (clock m (ticks m))"
  shows "\<exists>L' m' m''. save m L = (L', m') \<and> L' = L\<lparr>updated_at := clock m (ticks m)\<rparr> \<and>
           load m' (list_id L) = Inr (Some L', m'')"
proof -
  define L' where "L' = L\<lparr>updated_at := clock m (ticks m)\<rparr>"
  define files where
    "files = AList.update (get_task_file (list_id L)) (Parsed (model_dump L')) (tasks_dir m)"
  have s: "save m L = (L', m\<lparr>ticks := Suc (ticks m), tasks_dir := files\<rparr>)"
    by (simp add: save_def utcnow_def Let_def L'_def files_def)
  have v: "valid_task_list L'" "native_task_list L'"
    using assms by (simp_all add: L'_def valid_stamped native_stamped)
  have f: "map_of files (get_task_file (list_id L)) = Some (Parsed (model_dump L'))"
    by (simp add: files_def update_conv')
  from load_after_save[OF v f, of "m\<lparr>ticks := Suc (ticks m)\<rparr>"] s
  show ?thesis
    by (auto simp: L'_def)
qed

lemma valid_ex_clock: "n < 1000000 \<Longrightarrow> valid_datetime (ex_clock n)"
  by (simp add: ex_clock_def valid_datetime_def days_in_month_def)

theorem save_load_roundtrip_witness:
  "valid_task_list ex_array_list \<and> native_task_list ex_array_list \<and>
   (\<exists>m' m''. save (ex_manager_of []) ex_array_list = (ex_array_list\<lparr>updated_at := ex_clock 1\<rparr>, m') \<and>
      load m' ''demo'' = Inr (Some (ex_array_list\<lparr>updated_at := ex_clock 1\<rparr>), m''))"
proof -
  have v: "valid_task_list ex_array_list"
    by (simp add: ex_array_list_def ex_list_of_def ex_ranged_task_def ex_task_a_def new_task_def
          valid_task_list_def valid_task_def valid_checkpoint_def opt_all_def
          fresh_checkpoint_def valid_ex_clock)
  have n: "native_task_list ex_array_list"
    by (simp add: ex_array_list_def ex_list_of_def ex_ranged_task_def ex_task_a_def new_task_def
          native_task_list_def native_task_def native_dict_def opt_all_def fresh_checkpoint_def)
  have c: "valid_datetime (clock (ex_manager_of []) (ticks (ex_manager_of [])))"
    by (simp add: ex_manager_of_def valid_ex_clock)
  have i: "list_id ex_array_list = ''demo''"
    by (simp add: ex_array_list_def ex_list_of_def)
  have k: "clock (ex_manager_of []) (ticks (ex_manager_of [])) = ex_clock 1"
    by (simp add: ex_manager_of_def)
  from save_load_roundtrip[OF v n c] v n show ?thesis
    unfolding i k by blast
qed

text \<open>
  C5 as stated fails on a valid list with a tuple in a checkpoint's context: the tuple
  is written as an array, and the list that \<open>load\<close> returns holds an array where the
  saved list holds the tuple.
\<close>

theorem save_load_tuple_counterexample:
  "valid_task_list ex_tuple_list \<and>
   fst (save (ex_manager_of []) ex_tuple_list) = ex_tuple_list\<lparr>updated_at := ex_clock 1\<rparr> \<and>
   map_sum (\<lambda>e. e) fst (load (snd (save (ex_manager_of []) ex_tuple_list)) ''demo'') =
     Inr (Some (ex_array_list\<lparr>updated_at := ex_clock 1\<rparr>)) \<and>
   ex_array_list\<lparr>updated_at := ex_clock 1\<rparr> \<noteq> ex_tuple_list\<lparr>updated_at := ex_clock 1\<rparr>"
proof -
  have v: "valid_task_list ex_tuple_list"
    by (simp add: ex_tuple_list_def ex_list_of_def ex_ranged_task_def ex_task_a_def new_task_def
          valid_task_list_def valid_task_def valid_checkpoint_def opt_all_def
          fresh_checkpoint_def valid_ex_clock)
  have va: "valid_task_list (ex_array_list\<lparr>updated_at := ex_clock 1\<rparr>)"
    by (simp add: ex_array_list_def ex_list_of_def ex_ranged_task_def ex_task_a_def new_task_def
          valid_task_list_def valid_task_def valid_checkpoint_def opt_all_def
          fresh_checkpoint_def valid_ex_clock)
  have na: "native_task_list (ex_array_list\<lparr>updated_at := ex_clock 1\<rparr>)"
    by (simp add: ex_array_list_def ex_list_of_def ex_ranged_task_def ex_task_a_def new_task_def
          native_task_list_def native_task_def native_dict_def opt_all_def fresh_checkpoint_def)
  have d: "model_dump (ex_tuple_list\<lparr>updated_at := ex_clock 1\<rparr>) =
           model_dump (ex_array_list\<lparr>updated_at := ex_clock 1\<rparr>)"
    by (simp add: model_dump_def dump_task_def dump_checkpoint_def dump_dict_def dump_opt_def
          ex_tuple_list_def ex_array_list_def ex_list_of_def ex_ranged_task_def)
  have s: "save (ex_manager_of []) ex_tuple_list =
             (ex_tuple_list\<lparr>updated_at := ex_clock 1\<rparr>,
              (ex_manager_of [])\<lparr>ticks := 2,
                 tasks_dir := [(''demo.json'',
                    Parsed (model_dump (ex_array_list\<lparr>updated_at := ex_clock 1\<rparr>)))]\<rparr>)"
  proof -
    have "save (ex_manager_of []) ex_tuple_list =
             (ex_tuple_list\<lparr>updated_at := ex_clock 1\<rparr>,
              (ex_manager_of [])\<lparr>ticks := 2,
                 tasks_dir := [(''demo.json'',
                    Parsed (model_dump (ex_tuple_list\<lparr>updated_at := ex_clock 1\<rparr>)))]\<rparr>)"
      by (simp add: save_def utcnow_def Let_def ex_manager_of_def get_task_file_def
            ex_tuple_list_def ex_list_of_def)
    then show ?thesis by (simp only: d)
  qed
  have f: "map_of [(''demo.json'', Parsed (model_dump (ex_array_list\<lparr>updated_at := ex_clock 1\<rparr>)))]
             (get_task_file ''demo'') =
           Some (Parsed (model_dump (ex_array_list\<lparr>updated_at := ex_clock 1\<rparr>)))"
    by (simp add: get_task_file_def)
  have l: "map_sum (\<lambda>e. e) fst (load (snd (save (ex_manager_of []) ex_tuple_list)) ''demo'') =
             Inr (Some (ex_array_list\<lparr>updated_at := ex_clock 1\<rparr>))"
    using load_after_save[OF va na f, of "(ex_manager_of [])\<lparr>ticks := 2\<rparr>"]
    by (simp add: s)
  have ne: "ex_array_list\<lparr>updated_at := ex_clock 1\<rparr> \<noteq> ex_tuple_list\<lparr>updated_at := ex_clock 1\<rparr>"
    by (simp add: ex_array_list_def ex_tuple_list_def ex_list_of_def ex_ranged_task_def
          ex_task_a_def new_task_def fresh_checkpoint_def)
  from v s l ne show ?thesis by simp
qed


subsection \<open>Resuming\<close>

lemma load_file:
  assumes "valid_task_list L" and "native_task_list L"
    and "map_of (tasks_dir m) (get_task_file task_list_id) = Some (Parsed (model_dump L))"
  shows "load m task_list_id = Inr (Some L, m\<lparr>current_task_list := Some L\<rparr>)"
  using assms validate_model_dump[OF assms(1,2)]
  by (simp add: load_def model_dump_def)

lemma resume_commit:
  assumes "valid_task_list (L\<lparr>updated_at := clock m (ticks m)\<rparr>)" and "native_task_list L"
    and "list_id L = lid" and "lid \<noteq> []"
  shows "resume (commit m L) (Some lid) =
           Inr (Resumed
                 \<lparr>rb_task_list = L\<lparr>updated_at := clock m (ticks m)\<rparr>,
                  resume_task = fst (resume_target (commit m L) (L\<lparr>updated_at := clock m (ticks m)\<rparr>)),
                  rb_checkpoint = snd (resume_target (commit m L) (L\<lparr>updated_at := clock m (ticks m)\<rparr>)),
                  next_tasks = get_ready_tasks (commit m L),
                  rb_progress = progress_pct (L\<lparr>updated_at := clock m (ticks m)\<rparr>),
                  rb_status_summary = status_summary (L\<lparr>updated_at := clock m (ticks m)\<rparr>)\<rparr>,
                commit m L)"
proof -
  let ?L = "L\<lparr>updated_at := clock m (ticks m)\<rparr>"
  have n: "native_task_list ?L"
    using assms(2) by (simp add: native_task_list_def)
  have f: "map_of (tasks_dir (commit m L)) (get_task_file lid) = Some (Parsed (model_dump ?L))"
    using assms(3) by (simp add: update_conv')
  have e: "(commit m L)\<lparr>current_task_list := Some ?L\<rparr> = commit m L"
    by (simp add: commit_def save_def utcnow_def Let_def)
  have "load (commit m L) lid = Inr (Some ?L, commit m L)"
    using load_file[OF assms(1) n f] by (simp only: e)
  then show ?thesis
    using assms(4) by (simp add: resume_def resume_loaded_def split: prod.splits)
qed

text \<open>
  C2 at a state the engine reaches: task \<open>a\<close> is started and left running, task \<open>d\<close> is
  started and completed, so \<open>last_active_task_id\<close> names \<open>d\<close>, which is completed, while
  \<open>a\<close> is the first task in list order that is in progress.  \<open>resume\<close> returns \<open>d\<close> as the
  task to resume, with no checkpoint: the scan in list order is skipped because the
  lookup of the last active task found a task.
\<close>

theorem resume_skips_running_task:
  "\<exists>m. ex_resume_run = Inr m \<and>
     (\<exists>b m'. resume m (Some ''demo'') = Inr (Resumed b, m') \<and>
        map (\<lambda>t. (task_id t, status t)) (tasks (rb_task_list b)) =
          [(''a'', IN_PROGRESS), (''d'', COMPLETED)] \<and>
        last_active_task_id (rb_task_list b) = Some ''d'' \<and>
        map_option task_id (resume_task b) = Some ''d'' \<and>
        map_option status (resume_task b) = Some COMPLETED \<and>
        rb_checkpoint b = None)"
  by (simp add: ex_resume_run_def ex_manager_of_def ex_list_of_def start_task_def complete_task_def
     get_task_def find_task_def get_blocking_dependencies_def blocking_dependencies_def
     ex_task_a_def ex_task_d_def new_task_def utcnow_def Let_def update_blocked_map unblock_def
     fresh_checkpoint_def resume_commit valid_task_list_def valid_task_def valid_checkpoint_def
     opt_all_def native_task_list_def native_task_def native_dict_def valid_ex_clock
     resume_target_def first_priority_def)



subsection \<open>Listing\<close>

lemma fl_zero [simp]: "fl 0 = 0"
  by (simp add: fl_def)

lemma pct_of_zero [simp]: "pct_of 0 n = 0"
  by (simp add: pct_of_def py_int_def)

lemmas listing_defs =
  list_task_lists_def glob_json_def endswith_def ex_bad_document_def entry_of_def
  calc_progress_def get_overall_status_def get_tasks_def model_dump_def dump_task_def
  dump_datetime_def ex_list_def ex_list_of_def ex_task_a_def ex_task_b_def new_task_def Let_def

text \<open>
  The scenario of the specification: a file that does not parse is skipped, and the
  listing holds the one entry of the well-formed file.
\<close>

lemma list_task_lists_skips_unparseable:
  "map_sum (\<lambda>e. e) (map entry_id) (list_task_lists ex_corrupt_manager) = Inr [JStr ''demo'']"
  by (simp add: ex_corrupt_manager_def listing_defs)

text \<open>
  C9 at a directory the listing does not survive.  The second document is malformed
  (\<open>updated_at\<close> is \<open>null\<close>) but nothing is raised while its entry is built, so it is
  listed, not skipped; \<open>sorted\<close>, which runs outside the \<open>try\<close>, then compares \<open>null\<close> with
  the other entry's string and raises \<open>TypeError\<close>.
\<close>

theorem list_task_lists_null_updated_at:
  "map entry_id (read_entries (glob_json (tasks_dir ex_listing_manager))) =
     [JStr ''demo'', JStr ''bad''] \<and>
   list_task_lists ex_listing_manager = Inl TypeError"
  by (simp add: ex_listing_manager_def listing_defs)


subsection \<open>Progress\<close>

lemma ilog2_le:
  assumes "0 < x"
  shows "2 powi (ilog2 x) \<le> x"
proof -
  obtain p q where pq: "quotient_of x = (p, q)" by (cases "quotient_of x")
  then have q: "0 < q" and x: "x = of_int p / of_int q"
    by (auto simp: quotient_of_denom_pos quotient_of_div)
  from assms q x have p: "0 < p"
    by (simp add: zero_less_divide_iff)
  define d where "d = bitlen p - bitlen q"
  show ?thesis
  proof (cases "2 powi d \<le> x")
    case True
    then show ?thesis by (simp add: ilog2_def pq d_def Let_def)
  next
    case False
    from bitlen_bounds[OF p] have lo: "(2::rat) ^ nat (bitlen p - 1) \<le> of_int p"
      by (metis of_int_le_iff of_int_numeral of_int_power)
    from bitlen_bounds[OF q] have hi: "of_int q < (2::rat) ^ nat (bitlen q)"
      by (metis of_int_less_iff of_int_numeral of_int_power)
    have bp: "1 \<le> bitlen p" using p by (simp add: bitlen_alt_def)
    have "d - 1 = (bitlen p - 1) - bitlen q"
      by (simp add: d_def)
    then have "(2::rat) powi (d - 1) = 2 powi (bitlen p - 1) / 2 powi (bitlen q)"
      by (simp only: power_int_diff[of "2::rat" "bitlen p - 1" "bitlen q", simplified])
    also have "\<dots> = 2 ^ nat (bitlen p - 1) / 2 ^ nat (bitlen q)"
      using bp bitlen_nonneg[of q] by (simp add: power_int_def)
    also have "\<dots> \<le> of_int p / 2 ^ nat (bitlen q)"
      using lo by (simp add: divide_right_mono)
    also have "\<dots> \<le> of_int p / of_int q"
      using hi p q by (simp add: frac_le)
    finally have "2 powi (d - 1) \<le> x" by (simp add: x)
    with False show ?thesis by (simp add: ilog2_def pq d_def Let_def)
  qed
qed

lemma round_half_even_close: "\<bar>of_int (round_half_even y) - y\<bar> \<le> 1 / 2"
proof -
  have "of_int \<lfloor>y\<rfloor> \<le> y" "y < of_int \<lfloor>y\<rfloor> + 1" by linarith+
  then show ?thesis
    by (auto simp: round_half_even_def Let_def)
qed

lemma round_half_even_nonneg: "0 \<le> y \<Longrightarrow> 0 \<le> round_half_even y"
  by (auto simp: round_half_even_def Let_def)

lemma fl_nonneg: "0 \<le> x \<Longrightarrow> 0 \<le> fl x"
  by (auto simp: fl_def Let_def round_half_even_nonneg)

lemma fl_error:
  assumes "0 \<le> x"
  shows "\<bar>fl x - x\<bar> \<le> x / 2 ^ 53"
proof (cases "x = 0")
  case True
  then show ?thesis by (simp add: fl_def)
next
  case False
  with assms have x: "0 < x" by simp
  define e where "e = ilog2 x"
  define s :: rat where "s = 2 powi (e - 52)"
  have s: "0 < s" by (simp add: s_def)
  have f: "fl x = of_int (round_half_even (x / s)) * s"
    using x by (simp add: fl_def Let_def s_def e_def)
  have "\<bar>fl x - x\<bar> = \<bar>of_int (round_half_even (x / s)) - x / s\<bar> * s"
  proof -
    have "fl x - x = (of_int (round_half_even (x / s)) - x / s) * s"
      using s by (simp add: f field_simps)
    then show ?thesis using s by (simp add: abs_mult)
  qed
  also have "\<dots> \<le> (1 / 2) * s"
    using round_half_even_close[of "x / s"] s by (simp add: mult_right_mono)
  also have "\<dots> = 2 powi e / 2 ^ 53"
  proof -
    have "(2::rat) powi (e - 52) = 2 powi e / 2 powi 52"
      by (simp add: power_int_diff)
    then show ?thesis by (simp add: s_def)
  qed
  also have "\<dots> \<le> x / 2 ^ 53"
    using ilog2_le[OF x] by (simp add: e_def divide_right_mono)
  finally show ?thesis .
qed


lemma pct_of_close:
  assumes "0 < n" and "c \<le> n"
  shows "0 \<le> fl (fl (of_nat c / of_nat n) * 100)"
    and "\<bar>fl (fl (of_nat c / of_nat n) * 100) - 100 * (of_nat c / of_nat n)\<bar> < 1 / 2 ^ 45"
proof -
  define q :: rat where "q = of_nat c / of_nat n"
  define a where "a = fl q"
  define b where "b = fl (a * 100)"
  define u :: rat where "u = 1 / 2 ^ 53"
  have q: "0 \<le> q" "q \<le> 1"
    using assms by (simp_all add: q_def)
  have a0: "0 \<le> a" using q by (simp add: a_def fl_nonneg)
  have ea: "\<bar>a - q\<bar> \<le> q * u"
    using fl_error[OF q(1)] by (simp add: a_def u_def)
  have u0: "0 \<le> u" by (simp add: u_def)
  have "q * u \<le> 1 * u" using q u0 by (intro mult_right_mono) simp_all
  with ea have ea': "\<bar>a - q\<bar> \<le> u" by simp
  then have a1: "a \<le> 1 + u" using q by linarith
  have "0 \<le> a * 100" using a0 by simp
  from fl_error[OF this] have eb: "\<bar>b - a * 100\<bar> \<le> a * 100 * u"
    by (simp add: b_def u_def)
  have "a * 100 * u \<le> (1 + u) * 100 * u"
    using a1 u0 by (intro mult_right_mono) simp_all
  with eb have eb': "\<bar>b - a * 100\<bar> \<le> (1 + u) * 100 * u" by simp
  have "b - 100 * q = (b - a * 100) + 100 * (a - q)" by simp
  then have "\<bar>b - 100 * q\<bar> \<le> \<bar>b - a * 100\<bar> + \<bar>100 * (a - q)\<bar>"
    by (simp only: abs_triangle_ineq)
  also have "\<dots> = \<bar>b - a * 100\<bar> + 100 * \<bar>a - q\<bar>"
    by (simp only: abs_mult abs_numeral)
  finally have "\<bar>b - 100 * q\<bar> \<le> \<bar>b - a * 100\<bar> + 100 * \<bar>a - q\<bar>" .
  also have "\<dots> \<le> (1 + u) * 100 * u + 100 * u"
  proof (rule add_mono)
    show "\<bar>b - a * 100\<bar> \<le> (1 + u) * 100 * u" by (rule eb')
    show "100 * \<bar>a - q\<bar> \<le> 100 * u" using ea' by simp
  qed
  also have "\<dots> < 1 / 2 ^ 45" by (simp add: u_def)
  finally show "\<bar>fl (fl (of_nat c / of_nat n) * 100) - 100 * (of_nat c / of_nat n)\<bar> < 1 / 2 ^ 45"
    by (simp add: b_def a_def q_def)
  show "0 \<le> fl (fl (of_nat c / of_nat n) * 100)"
    using a0 by (simp add: a_def q_def fl_nonneg)
qed

lemma pct_of_bounds:
  assumes "0 < n" and "c \<le> n" and "n \<le> 2 ^ 45"
  shows "pct_of c n = int ((100 * c) div n) \<or> pct_of c n = int ((100 * c) div n) - 1"
    and "\<not> n dvd 100 * c \<Longrightarrow> pct_of c n = int ((100 * c) div n)"
proof -
  define b where "b = fl (fl (of_nat c / of_nat n) * 100)"
  define k where "k = (100 * c) div n"
  define r where "r = (100 * c) mod n"
  define x :: rat where "x = 100 * (of_nat c / of_nat n)"
  define eps :: rat where "eps = 1 / 2 ^ 45"
  define w :: rat where "w = 1 / of_nat n"
  define rr :: rat where "rr = of_nat r / of_nat n"
  have b0: "0 \<le> b" and bx: "\<bar>b - x\<bar> < eps"
    using pct_of_close[OF assms(1,2)] by (simp_all add: b_def x_def eps_def)
  have p: "pct_of c n = \<lfloor>b\<rfloor>"
    using b0 by (simp add: pct_of_def py_int_def b_def)
  have n0: "(0::rat) < of_nat n" using assms(1) by simp
  have "100 * c = k * n + r" by (simp add: k_def r_def)
  then have "(of_nat (100 * c) :: rat) = of_nat (k * n + r)" by simp
  then have xe: "x = of_int (int k) + rr"
    using n0 by (simp add: x_def rr_def field_simps)
  have rn: "r < n" using assms(1) by (simp add: r_def)
  have inv: "eps \<le> w"
  proof -
    have "(of_nat n :: rat) \<le> of_nat (2 ^ 45)" using assms(3) by (simp only: of_nat_le_iff)
    then have "(of_nat n :: rat) \<le> 2 ^ 45" by simp
    then show ?thesis unfolding eps_def w_def using n0 by (intro frac_le) simp_all
  qed
  have eps1: "eps < 1" by (simp add: eps_def)
  have r_hi: "rr \<le> 1 - w"
  proof -
    from rn have "Suc r \<le> n" by simp
    then have "(of_nat (Suc r) :: rat) \<le> of_nat n" by (simp only: of_nat_le_iff)
    then have "(of_nat r :: rat) \<le> of_nat n - 1" by simp
    then have "of_nat r / of_nat n \<le> ((of_nat n :: rat) - 1) / of_nat n"
      using n0 by (simp add: divide_right_mono)
    also have "\<dots> = 1 - 1 / of_nat n" using n0 by (simp add: field_simps)
    finally show ?thesis by (simp add: rr_def w_def)
  qed
  have r_lo: "0 \<le> rr" by (simp add: rr_def)
  have up: "b < of_int (int k + 1)"
    using bx xe r_hi inv by simp
  have lo: "of_int (int k - 1) \<le> b"
    using bx xe r_lo eps1 by simp
  have f_hi: "\<lfloor>b\<rfloor> \<le> int k"
    using up floor_less_iff[of b "int k + 1"] by simp
  have f_lo: "int k - 1 \<le> \<lfloor>b\<rfloor>"
    using lo by (simp only: le_floor_iff)
  from f_hi f_lo show "pct_of c n = int ((100 * c) div n) \<or> pct_of c n = int ((100 * c) div n) - 1"
    unfolding p k_def by linarith
  show "pct_of c n = int ((100 * c) div n)" if "\<not> n dvd 100 * c"
  proof -
    from that have "r \<noteq> 0" by (auto simp: r_def dvd_eq_mod_eq_0)
    then have "1 \<le> r" by simp
    then have "(of_nat 1 :: rat) \<le> of_nat r" by (simp only: of_nat_le_iff)
    then have "1 / of_nat n \<le> (of_nat r :: rat) / of_nat n"
      using n0 by (simp add: divide_right_mono)
    then have "w \<le> rr" by (simp add: w_def rr_def)
    then have "of_int (int k) \<le> b"
      using bx xe inv by simp
    then have "int k \<le> \<lfloor>b\<rfloor>" by (simp only: le_floor_iff)
    with f_hi show ?thesis unfolding p k_def by linarith
  qed
qed

lemma ilog2_less:
  assumes "0 < x"
  shows "x < 2 powi (ilog2 x + 1)"
proof -
  obtain p q where pq: "quotient_of x = (p, q)" by (cases "quotient_of x")
  then have q: "0 < q" and x: "x = of_int p / of_int q"
    by (auto simp: quotient_of_denom_pos quotient_of_div)
  from assms q x have p: "0 < p"
    by (simp add: zero_less_divide_iff)
  define d where "d = bitlen p - bitlen q"
  show ?thesis
  proof (cases "2 powi d \<le> x")
    case True
    from bitlen_bounds[OF p] have hi: "of_int p < (2::rat) ^ nat (bitlen p)"
      by (metis of_int_less_iff of_int_numeral of_int_power)
    from bitlen_bounds[OF q] have lo: "(2::rat) ^ nat (bitlen q - 1) \<le> of_int q"
      by (metis of_int_le_iff of_int_numeral of_int_power)
    have bq: "1 \<le> bitlen q" using q by (simp add: bitlen_alt_def)
    have "d + 1 = bitlen p - (bitlen q - 1)"
      by (simp add: d_def)
    then have "(2::rat) powi (d + 1) = 2 powi (bitlen p) / 2 powi (bitlen q - 1)"
      by (simp only: power_int_diff[of "2::rat" "bitlen p" "bitlen q - 1", simplified])
    also have "\<dots> = 2 ^ nat (bitlen p) / 2 ^ nat (bitlen q - 1)"
      using bq bitlen_nonneg[of p] by (simp add: power_int_def)
    finally have e: "(2::rat) powi (d + 1) = 2 ^ nat (bitlen p) / 2 ^ nat (bitlen q - 1)" .
    have "of_int p / of_int q < (2::rat) ^ nat (bitlen p) / of_int q"
      using hi q by (simp add: divide_strict_right_mono)
    also have "\<dots> \<le> 2 ^ nat (bitlen p) / 2 ^ nat (bitlen q - 1)"
      using lo q by (intro divide_left_mono) simp_all
    finally have "x < 2 powi (d + 1)" by (simp add: x e)
    with True show ?thesis by (simp add: ilog2_def pq d_def Let_def)
  next
    case False
    then show ?thesis by (simp add: ilog2_def pq d_def Let_def)
  qed
qed

lemma ilog2_eq:
  assumes "0 < x" and "2 powi e \<le> x" and "x < 2 powi (e + 1)"
  shows "ilog2 x = e"
proof -
  have a: "(2::rat) powi (ilog2 x) < 2 powi (e + 1)"
    using ilog2_le[OF assms(1)] assms(3) by simp
  have b: "(2::rat) powi e < 2 powi (ilog2 x + 1)"
    using ilog2_less[OF assms(1)] assms(2) by simp
  have "ilog2 x < e + 1"
  proof (rule ccontr)
    assume "\<not> ilog2 x < e + 1"
    then have "e + 1 \<le> ilog2 x" by simp
    then have "(2::rat) powi (e + 1) \<le> 2 powi (ilog2 x)"
      by (rule power_int_increasing) simp
    with a show False by simp
  qed
  moreover have "e < ilog2 x + 1"
  proof (rule ccontr)
    assume "\<not> e < ilog2 x + 1"
    then have "ilog2 x + 1 \<le> e" by simp
    then have "(2::rat) powi (ilog2 x + 1) \<le> 2 powi e"
      by (rule power_int_increasing) simp
    with b show False by simp
  qed
  ultimately show ?thesis by simp
qed

lemma round_half_even_eq:
  assumes "\<bar>y - of_int z\<bar> \<le> 1 / 2" and "\<bar>y - of_int z\<bar> = 1 / 2 \<longrightarrow> even z"
  shows "round_half_even y = z"
proof (cases "\<bar>y - of_int z\<bar> = 1 / 2")
  case False
  with assms(1) have "\<bar>y - of_int z\<bar> < 1 / 2" by simp
  with round_half_even_close[of y] have "\<bar>(of_int (round_half_even y) :: rat) - of_int z\<bar> < 1"
    by linarith
  then have "\<bar>(of_int (round_half_even y - z) :: rat)\<bar> < 1" by simp
  then have "\<bar>round_half_even y - z\<bar> < 1"
    by (metis of_int_abs of_int_less_1_iff)
  then show ?thesis by simp
next
  case True
  with assms(2) have ev: "even z" by simp
  from True consider "y = of_int z + 1 / 2" | "y = of_int z - 1 / 2"
    by (auto simp: abs_if split: if_splits) 
  then show ?thesis
  proof cases
    case 1
    then have "\<lfloor>y\<rfloor> = z" by (simp add: floor_unique)
    with 1 ev show ?thesis by (simp add: round_half_even_def Let_def)
  next
    case 2
    then have f: "\<lfloor>y\<rfloor> = z - 1" by (simp add: floor_unique)
    from ev have "odd (z - 1)" by simp
    with 2 f show ?thesis by (simp add: round_half_even_def Let_def)
  qed
qed

lemma fl_eq:
  assumes "0 < x" and "2 powi e \<le> x" and "x < 2 powi (e + 1)"
    and "\<bar>x / 2 powi (e - 52) - of_int z\<bar> \<le> 1 / 2"
    and "\<bar>x / 2 powi (e - 52) - of_int z\<bar> = 1 / 2 \<longrightarrow> even z"
  shows "fl x = of_int z * 2 powi (e - 52)"
  using assms(1) ilog2_eq[OF assms(1,2,3)] round_half_even_eq[OF assms(4,5)]
  by (simp add: fl_def Let_def)

text \<open>
  A certificate for one value of \<open>int((k / 100) * 100)\<close>: the exponents and significands
  of the two rounded results.
\<close>

lemma pct_cert:
  fixes x a b :: rat
  assumes "x = of_nat c / of_nat n" and "0 < x"
    and "2 powi e1 \<le> x" and "x < 2 powi (e1 + 1)"
    and "\<bar>x / 2 powi (e1 - 52) - of_int z1\<bar> \<le> 1 / 2"
    and "\<bar>x / 2 powi (e1 - 52) - of_int z1\<bar> = 1 / 2 \<longrightarrow> even z1"
    and "a = of_int z1 * 2 powi (e1 - 52)" and "0 < a * 100"
    and "2 powi e2 \<le> a * 100" and "a * 100 < 2 powi (e2 + 1)"
    and "\<bar>a * 100 / 2 powi (e2 - 52) - of_int z2\<bar> \<le> 1 / 2"
    and "\<bar>a * 100 / 2 powi (e2 - 52) - of_int z2\<bar> = 1 / 2 \<longrightarrow> even z2"
    and "b = of_int z2 * 2 powi (e2 - 52)"
    and "of_int v \<le> b" and "b < of_int v + 1" and "0 \<le> b"
  shows "pct_of c n = v"
proof -
  have "fl x = a"
    using fl_eq[OF assms(2,3,4,5,6)] assms(7) by simp
  moreover have "fl (a * 100) = b"
    using fl_eq[OF assms(8,9,10,11,12)] assms(13) by simp
  moreover have "\<lfloor>b\<rfloor> = v"
    using assms(14,15) by (simp add: floor_unique)
  ultimately show ?thesis
    using assms(1,16) by (simp add: pct_of_def py_int_def)
qed

lemma pct_of_100_1: "pct_of 1 100 = 1"
  by (rule pct_cert[where x = "1 / 100" and ?e1.0 = "-7" and ?z1.0 = 5764607523034235
        and ?e2.0 = "0" and ?z2.0 = 4503599627370496
        and a = "5764607523034235 * 2 powi (-59)" and b = "4503599627370496 * 2 powi (-52)"])
     (simp_all add: power_int_def power_divide)

lemma pct_of_100_2: "pct_of 2 100 = 2"
  by (rule pct_cert[where x = "2 / 100" and ?e1.0 = "-6" and ?z1.0 = 5764607523034235
        and ?e2.0 = "1" and ?z2.0 = 4503599627370496
        and a = "5764607523034235 * 2 powi (-58)" and b = "4503599627370496 * 2 powi (-51)"])
     (simp_all add: power_int_def power_divide)

lemma pct_of_100_3: "pct_of 3 100 = 3"
  by (rule pct_cert[where x = "3 / 100" and ?e1.0 = "-6" and ?z1.0 = 8646911284551352
        and ?e2.0 = "1" and ?z2.0 = 6755399441055744
        and a = "8646911284551352 * 2 powi (-58)" and b = "6755399441055744 * 2 powi (-51)"])
     (simp_all add: power_int_def power_divide)

lemma pct_of_100_4: "pct_of 4 100 = 4"
  by (rule pct_cert[where x = "4 / 100" and ?e1.0 = "-5" and ?z1.0 = 5764607523034235
        and ?e2.0 = "2" and ?z2.0 = 4503599627370496
        and a = "5764607523034235 * 2 powi (-57)" and b = "4503599627370496 * 2 powi (-50)"])
     (simp_all add: power_int_def power_divide)

lemma pct_of_100_5: "pct_of 5 100 = 5"
  by (rule pct_cert[where x = "5 / 100" and ?e1.0 = "-5" and ?z1.0 = 7205759403792794
        and ?e2.0 = "2" and ?z2.0 = 5629499534213120
        and a = "7205759403792794 * 2 powi (-57)" and b = "5629499534213120 * 2 powi (-50)"])
     (simp_all add: power_int_def power_divide)

lemma pct_of_100_6: "pct_of 6 100 = 6"
  by (rule pct_cert[where x = "6 / 100" and ?e1.0 = "-5" and ?z1.0 = 8646911284551352
        and ?e2.0 = "2" and ?z2.0 = 6755399441055744
        and a = "8646911284551352 * 2 powi (-57)" and b = "6755399441055744 * 2 powi (-50)"])
     (simp_all add: power_int_def power_divide)

lemma pct_of_100_7: "pct_of 7 100 = 7"
  by (rule pct_cert[where x = "7 / 100" and ?e1.0 = "-4" and ?z1.0 = 5044031582654956
        and ?e2.0 = "2" and ?z2.0 = 7881299347898369
        and a = "5044031582654956 * 2 powi (-56)" and b = "7881299347898369 * 2 powi (-50)"])
     (simp_all add: power_int_def power_divide)

lemma pct_of_100_8: "pct_of 8 100 = 8"
  by (rule pct_cert[where x = "8 / 100" and ?e1.0 = "-4" and ?z1.0 = 5764607523034235
        and ?e2.0 = "3" and ?z2.0 = 4503599627370496
        and a = "5764607523034235 * 2 powi (-56)" and b = "4503599627370496 * 2 powi (-49)"])
     (simp_all add: power_int_def power_divide)

lemma pct_of_100_9: "pct_of 9 100 = 9"
  by (rule pct_cert[where x = "9 / 100" and ?e1.0 = "-4" and ?z1.0 = 6485183463413514
        and ?e2.0 = "3" and ?z2.0 = 5066549580791808
        and a = "6485183463413514 * 2 powi (-56)" and b = "5066549580791808 * 2 powi (-49)"])
     (simp_all add: power_int_def power_divide)

lemma pct_of_100_10: "pct_of 10 100 = 10"
  by (rule pct_cert[where x = "10 / 100" and ?e1.0 = "-4" and ?z1.0 = 7205759403792794
        and ?e2.0 = "3" and ?z2.0 = 5629499534213120
        and a = "7205759403792794 * 2 powi (-56)" and b = "5629499534213120 * 2 powi (-49)"])
     (simp_all add: power_int_def power_divide)

lemma pct_of_100_11: "pct_of 11 100 = 11"
  by (rule pct_cert[where x = "11 / 100" and ?e1.0 = "-4" and ?z1.0 = 7926335344172073
        and ?e2.0 = "3" and ?z2.0 = 6192449487634432
        and a = "7926335344172073 * 2 powi (-56)" and b = "6192449487634432 * 2 powi (-49)"])
     (simp_all add: power_int_def power_divide)

lemma pct_of_100_12: "pct_of 12 100 = 12"
  by (rule pct_cert[where x = "12 / 100" and ?e1.0 = "-4" and ?z1.0 = 8646911284551352
        and ?e2.0 = "3" and ?z2.0 = 6755399441055744
        and a = "8646911284551352 * 2 powi (-56)" and b = "6755399441055744 * 2 powi (-49)"])
     (simp_all add: power_int_def power_divide)

lemma pct_of_100_13: "pct_of 13 100 = 13"
  by (rule pct_cert[where x = "13 / 100" and ?e1.0 = "-3" and ?z1.0 = 4683743612465316
        and ?e2.0 = "3" and ?z2.0 = 7318349394477056
        and a = "4683743612465316 * 2 powi (-55)" and b = "7318349394477056 * 2 powi (-49)"])
     (simp_all add: power_int_def power_divide)

lemma pct_of_100_14: "pct_of 14 100 = 14"
  by (rule pct_cert[where x = "14 / 100" and ?e1.0 = "-3" and ?z1.0 = 5044031582654956
        and ?e2.0 = "3" and ?z2.0 = 7881299347898369
        and a = "5044031582654956 * 2 powi (-55)" and b = "7881299347898369 * 2 powi (-49)"])
     (simp_all add: power_int_def power_divide)

lemma pct_of_100_15: "pct_of 15 100 = 15"
  by (rule pct_cert[where x = "15 / 100" and ?e1.0 = "-3" and ?z1.0 = 5404319552844595
        and ?e2.0 = "3" and ?z2.0 = 8444249301319680
        and a = "5404319552844595 * 2 powi (-55)" and b = "8444249301319680 * 2 powi (-49)"])
     (simp_all add: power_int_def power_divide)

lemma pct_of_100_16: "pct_of 16 100 = 16"
  by (rule pct_cert[where x = "16 / 100" and ?e1.0 = "-3" and ?z1.0 = 5764607523034235
        and ?e2.0 = "4" and ?z2.0 = 4503599627370496
        and a = "5764607523034235 * 2 powi (-55)" and b = "4503599627370496 * 2 powi (-48)"])
     (simp_all add: power_int_def power_divide)

lemma pct_of_100_17: "pct_of 17 100 = 17"
  by (rule pct_cert[where x = "17 / 100" and ?e1.0 = "-3" and ?z1.0 = 6124895493223875
        and ?e2.0 = "4" and ?z2.0 = 4785074604081152
        and a = "6124895493223875 * 2 powi (-55)" and b = "4785074604081152 * 2 powi (-48)"])
     (simp_all add: power_int_def power_divide)

lemma pct_of_100_18: "pct_of 18 100 = 18"
  by (rule pct_cert[where x = "18 / 100" and ?e1.0 = "-3" and ?z1.0 = 6485183463413514
        and ?e2.0 = "4" and ?z2.0 = 5066549580791808
        and a = "6485183463413514 * 2 powi (-55)" and b = "5066549580791808 * 2 powi (-48)"])
     (simp_all add: power_int_def power_divide)

lemma pct_of_100_19: "pct_of 19 100 = 19"
  by (rule pct_cert[where x = "19 / 100" and ?e1.0 = "-3" and ?z1.0 = 6845471433603154
        and ?e2.0 = "4" and ?z2.0 = 5348024557502464
        and a = "6845471433603154 * 2 powi (-55)" and b = "5348024557502464 * 2 powi (-48)"])
     (simp_all add: power_int_def power_divide)

lemma pct_of_100_20: "pct_of 20 100 = 20"
  by (rule pct_cert[where x = "20 / 100" and ?e1.0 = "-3" and ?z1.0 = 7205759403792794
        and ?e2.0 = "4" and ?z2.0 = 5629499534213120
        and a = "7205759403792794 * 2 powi (-55)" and b = "5629499534213120 * 2 powi (-48)"])
     (simp_all add: power_int_def power_divide)

lemma pct_of_100_21: "pct_of 21 100 = 21"
  by (rule pct_cert[where x = "21 / 100" and ?e1.0 = "-3" and ?z1.0 = 7566047373982433
        and ?e2.0 = "4" and ?z2.0 = 5910974510923776
        and a = "7566047373982433 * 2 powi (-55)" and b = "5910974510923776 * 2 powi (-48)"])
     (simp_all add: power_int_def power_divide)

lemma pct_of_100_22: "pct_of 22 100 = 22"
  by (rule pct_cert[where x = "22 / 100" and ?e1.0 = "-3" and ?z1.0 = 7926335344172073
        and ?e2.0 = "4" and ?z2.0 = 6192449487634432
        and a = "7926335344172073 * 2 powi (-55)" and b = "6192449487634432 * 2 powi (-48)"])
     (simp_all add: power_int_def power_divide)

lemma pct_of_100_23: "pct_of 23 100 = 23"
  by (rule pct_cert[where x = "23 / 100" and ?e1.0 = "-3" and ?z1.0 = 8286623314361713
        and ?e2.0 = "4" and ?z2.0 = 6473924464345088
        and a = "8286623314361713 * 2 powi (-55)" and b = "6473924464345088 * 2 powi (-48)"])
     (simp_all add: power_int_def power_divide)

lemma pct_of_100_24: "pct_of 24 100 = 24"
  by (rule pct_cert[where x = "24 / 100" and ?e1.0 = "-3" and ?z1.0 = 8646911284551352
        and ?e2.0 = "4" and ?z2.0 = 6755399441055744
        and a = "8646911284551352 * 2 powi (-55)" and b = "6755399441055744 * 2 powi (-48)"])
     (simp_all add: power_int_def power_divide)

lemma pct_of_100_25: "pct_of 25 100 = 25"
  by (rule pct_cert[where x = "25 / 100" and ?e1.0 = "-2" and ?z1.0 = 4503599627370496
        and ?e2.0 = "4" and ?z2.0 = 7036874417766400
        and a = "4503599627370496 * 2 powi (-54)" and b = "7036874417766400 * 2 powi (-48)"])
     (simp_all add: power_int_def power_divide)

lemma pct_of_100_26: "pct_of 26 100 = 26"
  by (rule pct_cert[where x = "26 / 100" and ?e1.0 = "-2" and ?z1.0 = 4683743612465316
        and ?e2.0 = "4" and ?z2.0 = 7318349394477056
        and a = "4683743612465316 * 2 powi (-54)" and b = "7318349394477056 * 2 powi (-48)"])
     (simp_all add: power_int_def power_divide)

lemma pct_of_100_27: "pct_of 27 100 = 27"
  by (rule pct_cert[where x = "27 / 100" and ?e1.0 = "-2" and ?z1.0 = 4863887597560136
        and ?e2.0 = "4" and ?z2.0 = 7599824371187712
        and a = "4863887597560136 * 2 powi (-54)" and b = "7599824371187712 * 2 powi (-48)"])
     (simp_all add: power_int_def power_divide)

lemma pct_of_100_28: "pct_of 28 100 = 28"
  by (rule pct_cert[where x = "28 / 100" and ?e1.0 = "-2" and ?z1.0 = 5044031582654956
        and ?e2.0 = "4" and ?z2.0 = 7881299347898369
        and a = "5044031582654956 * 2 powi (-54)" and b = "7881299347898369 * 2 powi (-48)"])
     (simp_all add: power_int_def power_divide)

lemma pct_of_100_29: "pct_of 29 100 = 28"
  by (rule pct_cert[where x = "29 / 100" and ?e1.0 = "-2" and ?z1.0 = 5224175567749775
        and ?e2.0 = "4" and ?z2.0 = 8162774324609023
        and a = "5224175567749775 * 2 powi (-54)" and b = "8162774324609023 * 2 powi (-48)"])
     (simp_all add: power_int_def power_divide)

lemma pct_of_100_30: "pct_of 30 100 = 30"
  by (rule pct_cert[where x = "30 / 100" and ?e1.0 = "-2" and ?z1.0 = 5404319552844595
        and ?e2.0 = "4" and ?z2.0 = 8444249301319680
        and a = "5404319552844595 * 2 powi (-54)" and b = "8444249301319680 * 2 powi (-48)"])
     (simp_all add: power_int_def power_divide)

lemma pct_of_100_31: "pct_of 31 100 = 31"
  by (rule pct_cert[where x = "31 / 100" and ?e1.0 = "-2" and ?z1.0 = 5584463537939415
        and ?e2.0 = "4" and ?z2.0 = 8725724278030336
        and a = "5584463537939415 * 2 powi (-54)" and b = "8725724278030336 * 2 powi (-48)"])
     (simp_all add: power_int_def power_divide)

lemma pct_of_100_32: "pct_of 32 100 = 32"
  by (rule pct_cert[where x = "32 / 100" and ?e1.0 = "-2" and ?z1.0 = 5764607523034235
        and ?e2.0 = "5" and ?z2.0 = 4503599627370496
        and a = "5764607523034235 * 2 powi (-54)" and b = "4503599627370496 * 2 powi (-47)"])
     (simp_all add: power_int_def power_divide)

lemma pct_of_100_33: "pct_of 33 100 = 33"
  by (rule pct_cert[where x = "33 / 100" and ?e1.0 = "-2" and ?z1.0 = 5944751508129055
        and ?e2.0 = "5" and ?z2.0 = 4644337115725824
        and a = "5944751508129055 * 2 powi (-54)" and b = "4644337115725824 * 2 powi (-47)"])
     (simp_all add: power_int_def power_divide)

lemma pct_of_100_34: "pct_of 34 100 = 34"
  by (rule pct_cert[where x = "34 / 100" and ?e1.0 = "-2" and ?z1.0 = 6124895493223875
        and ?e2.0 = "5" and ?z2.0 = 4785074604081152
        and a = "6124895493223875 * 2 powi (-54)" and b = "4785074604081152 * 2 powi (-47)"])
     (simp_all add: power_int_def power_divide)

lemma pct_of_100_35: "pct_of 35 100 = 35"
  by (rule pct_cert[where x = "35 / 100" and ?e1.0 = "-2" and ?z1.0 = 6305039478318694
        and ?e2.0 = "5" and ?z2.0 = 4925812092436480
        and a = "6305039478318694 * 2 powi (-54)" and b = "4925812092436480 * 2 powi (-47)"])
     (simp_all add: power_int_def power_divide)

lemma pct_of_100_36: "pct_of 36 100 = 36"
  by (rule pct_cert[where x = "36 / 100" and ?e1.0 = "-2" and ?z1.0 = 6485183463413514
        and ?e2.0 = "5" and ?z2.0 = 5066549580791808
        and a = "6485183463413514 * 2 powi (-54)" and b = "5066549580791808 * 2 powi (-47)"])
     (simp_all add: power_int_def power_divide)

lemma pct_of_100_37: "pct_of 37 100 = 37"
  by (rule pct_cert[where x = "37 / 100" and ?e1.0 = "-2" and ?z1.0 = 6665327448508334
        and ?e2.0 = "5" and ?z2.0 = 5207287069147136
        and a = "6665327448508334 * 2 powi (-54)" and b = "5207287069147136 * 2 powi (-47)"])
     (simp_all add: power_int_def power_divide)

lemma pct_of_100_38: "pct_of 38 100 = 38"
  by (rule pct_cert[where x = "38 / 100" and ?e1.0 = "-2" and ?z1.0 = 6845471433603154
        and ?e2.0 = "5" and ?z2.0 = 5348024557502464
        and a = "6845471433603154 * 2 powi (-54)" and b = "5348024557502464 * 2 powi (-47)"])
     (simp_all add: power_int_def power_divide)

lemma pct_of_100_39: "pct_of 39 100 = 39"
  by (rule pct_cert[where x = "39 / 100" and ?e1.0 = "-2" and ?z1.0 = 7025615418697974
        and ?e2.0 = "5" and ?z2.0 = 5488762045857792
        and a = "7025615418697974 * 2 powi (-54)" and b = "5488762045857792 * 2 powi (-47)"])
     (simp_all add: power_int_def power_divide)

lemma pct_of_100_40: "pct_of 40 100 = 40"
  by (rule pct_cert[where x = "40 / 100" and ?e1.0 = "-2" and ?z1.0 = 7205759403792794
        and ?e2.0 = "5" and ?z2.0 = 5629499534213120
        and a = "7205759403792794 * 2 powi (-54)" and b = "5629499534213120 * 2 powi (-47)"])
     (simp_all add: power_int_def power_divide)

lemma pct_of_100_41: "pct_of 41 100 = 41"
  by (rule pct_cert[where x = "41 / 100" and ?e1.0 = "-2" and ?z1.0 = 7385903388887613
        and ?e2.0 = "5" and ?z2.0 = 5770237022568448
        and a = "7385903388887613 * 2 powi (-54)" and b = "5770237022568448 * 2 powi (-47)"])
     (simp_all add: power_int_def power_divide)

lemma pct_of_100_42: "pct_of 42 100 = 42"
  by (rule pct_cert[where x = "42 / 100" and ?e1.0 = "-2" and ?z1.0 = 7566047373982433
        and ?e2.0 = "5" and ?z2.0 = 5910974510923776
        and a = "7566047373982433 * 2 powi (-54)" and b = "5910974510923776 * 2 powi (-47)"])
     (simp_all add: power_int_def power_divide)

lemma pct_of_100_43: "pct_of 43 100 = 43"
  by (rule pct_cert[where x = "43 / 100" and ?e1.0 = "-2" and ?z1.0 = 7746191359077253
        and ?e2.0 = "5" and ?z2.0 = 6051711999279104
        and a = "7746191359077253 * 2 powi (-54)" and b = "6051711999279104 * 2 powi (-47)"])
     (simp_all add: power_int_def power_divide)

lemma pct_of_100_44: "pct_of 44 100 = 44"
  by (rule pct_cert[where x = "44 / 100" and ?e1.0 = "-2" and ?z1.0 = 7926335344172073
        and ?e2.0 = "5" and ?z2.0 = 6192449487634432
        and a = "7926335344172073 * 2 powi (-54)" and b = "6192449487634432 * 2 powi (-47)"])
     (simp_all add: power_int_def power_divide)

lemma pct_of_100_45: "pct_of 45 100 = 45"
  by (rule pct_cert[where x = "45 / 100" and ?e1.0 = "-2" and ?z1.0 = 8106479329266893
        and ?e2.0 = "5" and ?z2.0 = 6333186975989760
        and a = "8106479329266893 * 2 powi (-54)" and b = "6333186975989760 * 2 powi (-47)"])
     (simp_all add: power_int_def power_divide)

lemma pct_of_100_46: "pct_of 46 100 = 46"
  by (rule pct_cert[where x = "46 / 100" and ?e1.0 = "-2" and ?z1.0 = 8286623314361713
        and ?e2.0 = "5" and ?z2.0 = 6473924464345088
        and a = "8286623314361713 * 2 powi (-54)" and b = "6473924464345088 * 2 powi (-47)"])
     (simp_all add: power_int_def power_divide)

lemma pct_of_100_47: "pct_of 47 100 = 47"
  by (rule pct_cert[where x = "47 / 100" and ?e1.0 = "-2" and ?z1.0 = 8466767299456532
        and ?e2.0 = "5" and ?z2.0 = 6614661952700416
        and a = "8466767299456532 * 2 powi (-54)" and b = "6614661952700416 * 2 powi (-47)"])
     (simp_all add: power_int_def power_divide)

lemma pct_of_100_48: "pct_of 48 100 = 48"
  by (rule pct_cert[where x = "48 / 100" and ?e1.0 = "-2" and ?z1.0 = 8646911284551352
        and ?e2.0 = "5" and ?z2.0 = 6755399441055744
        and a = "8646911284551352 * 2 powi (-54)" and b = "6755399441055744 * 2 powi (-47)"])
     (simp_all add: power_int_def power_divide)

lemma pct_of_100_49: "pct_of 49 100 = 49"
  by (rule pct_cert[where x = "49 / 100" and ?e1.0 = "-2" and ?z1.0 = 8827055269646172
        and ?e2.0 = "5" and ?z2.0 = 6896136929411072
        and a = "8827055269646172 * 2 powi (-54)" and b = "6896136929411072 * 2 powi (-47)"])
     (simp_all add: power_int_def power_divide)

lemma pct_of_100_50: "pct_of 50 100 = 50"
  by (rule pct_cert[where x = "50 / 100" and ?e1.0 = "-1" and ?z1.0 = 4503599627370496
        and ?e2.0 = "5" and ?z2.0 = 7036874417766400
        and a = "4503599627370496 * 2 powi (-53)" and b = "7036874417766400 * 2 powi (-47)"])
     (simp_all add: power_int_def power_divide)

lemma pct_of_100_51: "pct_of 51 100 = 51"
  by (rule pct_cert[where x = "51 / 100" and ?e1.0 = "-1" and ?z1.0 = 4593671619917906
        and ?e2.0 = "5" and ?z2.0 = 7177611906121728
        and a = "4593671619917906 * 2 powi (-53)" and b = "7177611906121728 * 2 powi (-47)"])
     (simp_all add: power_int_def power_divide)

lemma pct_of_100_52: "pct_of 52 100 = 52"
  by (rule pct_cert[where x = "52 / 100" and ?e1.0 = "-1" and ?z1.0 = 4683743612465316
        and ?e2.0 = "5" and ?z2.0 = 7318349394477056
        and a = "4683743612465316 * 2 powi (-53)" and b = "7318349394477056 * 2 powi (-47)"])
     (simp_all add: power_int_def power_divide)

lemma pct_of_100_53: "pct_of 53 100 = 53"
  by (rule pct_cert[where x = "53 / 100" and ?e1.0 = "-1" and ?z1.0 = 4773815605012726
        and ?e2.0 = "5" and ?z2.0 = 7459086882832384
        and a = "4773815605012726 * 2 powi (-53)" and b = "7459086882832384 * 2 powi (-47)"])
     (simp_all add: power_int_def power_divide)

lemma pct_of_100_54: "pct_of 54 100 = 54"
  by (rule pct_cert[where x = "54 / 100" and ?e1.0 = "-1" and ?z1.0 = 4863887597560136
        and ?e2.0 = "5" and ?z2.0 = 7599824371187712
        and a = "4863887597560136 * 2 powi (-53)" and b = "7599824371187712 * 2 powi (-47)"])
     (simp_all add: power_int_def power_divide)

lemma pct_of_100_55: "pct_of 55 100 = 55"
  by (rule pct_cert[where x = "55 / 100" and ?e1.0 = "-1" and ?z1.0 = 4953959590107546
        and ?e2.0 = "5" and ?z2.0 = 7740561859543041
        and a = "4953959590107546 * 2 powi (-53)" and b = "7740561859543041 * 2 powi (-47)"])
     (simp_all add: power_int_def power_divide)

lemma pct_of_100_56: "pct_of 56 100 = 56"
  by (rule pct_cert[where x = "56 / 100" and ?e1.0 = "-1" and ?z1.0 = 5044031582654956
        and ?e2.0 = "5" and ?z2.0 = 7881299347898369
        and a = "5044031582654956 * 2 powi (-53)" and b = "7881299347898369 * 2 powi (-47)"])
     (simp_all add: power_int_def power_divide)

lemma pct_of_100_57: "pct_of 57 100 = 56"
  by (rule pct_cert[where x = "57 / 100" and ?e1.0 = "-1" and ?z1.0 = 5134103575202365
        and ?e2.0 = "5" and ?z2.0 = 8022036836253695
        and a = "5134103575202365 * 2 powi (-53)" and b = "8022036836253695 * 2 powi (-47)"])
     (simp_all add: power_int_def power_divide)

lemma pct_of_100_58: "pct_of 58 100 = 57"
  by (rule pct_cert[where x = "58 / 100" and ?e1.0 = "-1" and ?z1.0 = 5224175567749775
        and ?e2.0 = "5" and ?z2.0 = 8162774324609023
        and a = "5224175567749775 * 2 powi (-53)" and b = "8162774324609023 * 2 powi (-47)"])
     (simp_all add: power_int_def power_divide)

lemma pct_of_100_59: "pct_of 59 100 = 59"
  by (rule pct_cert[where x = "59 / 100" and ?e1.0 = "-1" and ?z1.0 = 5314247560297185
        and ?e2.0 = "5" and ?z2.0 = 8303511812964352
        and a = "5314247560297185 * 2 powi (-53)" and b = "8303511812964352 * 2 powi (-47)"])
     (simp_all add: power_int_def power_divide)

lemma pct_of_100_60: "pct_of 60 100 = 60"
  by (rule pct_cert[where x = "60 / 100" and ?e1.0 = "-1" and ?z1.0 = 5404319552844595
        and ?e2.0 = "5" and ?z2.0 = 8444249301319680
        and a = "5404319552844595 * 2 powi (-53)" and b = "8444249301319680 * 2 powi (-47)"])
     (simp_all add: power_int_def power_divide)

lemma pct_of_100_61: "pct_of 61 100 = 61"
  by (rule pct_cert[where x = "61 / 100" and ?e1.0 = "-1" and ?z1.0 = 5494391545392005
        and ?e2.0 = "5" and ?z2.0 = 8584986789675008
        and a = "5494391545392005 * 2 powi (-53)" and b = "8584986789675008 * 2 powi (-47)"])
     (simp_all add: power_int_def power_divide)

lemma pct_of_100_62: "pct_of 62 100 = 62"
  by (rule pct_cert[where x = "62 / 100" and ?e1.0 = "-1" and ?z1.0 = 5584463537939415
        and ?e2.0 = "5" and ?z2.0 = 8725724278030336
        and a = "5584463537939415 * 2 powi (-53)" and b = "8725724278030336 * 2 powi (-47)"])
     (simp_all add: power_int_def power_divide)

lemma pct_of_100_63: "pct_of 63 100 = 63"
  by (rule pct_cert[where x = "63 / 100" and ?e1.0 = "-1" and ?z1.0 = 5674535530486825
        and ?e2.0 = "5" and ?z2.0 = 8866461766385664
        and a = "5674535530486825 * 2 powi (-53)" and b = "8866461766385664 * 2 powi (-47)"])
     (simp_all add: power_int_def power_divide)

lemma pct_of_100_64: "pct_of 64 100 = 64"
  by (rule pct_cert[where x = "64 / 100" and ?e1.0 = "-1" and ?z1.0 = 5764607523034235
        and ?e2.0 = "6" and ?z2.0 = 4503599627370496
        and a = "5764607523034235 * 2 powi (-53)" and b = "4503599627370496 * 2 powi (-46)"])
     (simp_all add: power_int_def power_divide)

lemma pct_of_100_65: "pct_of 65 100 = 65"
  by (rule pct_cert[where x = "65 / 100" and ?e1.0 = "-1" and ?z1.0 = 5854679515581645
        and ?e2.0 = "6" and ?z2.0 = 4573968371548160
        and a = "5854679515581645 * 2 powi (-53)" and b = "4573968371548160 * 2 powi (-46)"])
     (simp_all add: power_int_def power_divide)

lemma pct_of_100_66: "pct_of 66 100 = 66"
  by (rule pct_cert[where x = "66 / 100" and ?e1.0 = "-1" and ?z1.0 = 5944751508129055
        and ?e2.0 = "6" and ?z2.0 = 4644337115725824
        and a = "5944751508129055 * 2 powi (-53)" and b = "4644337115725824 * 2 powi (-46)"])
     (simp_all add: power_int_def power_divide)

lemma pct_of_100_67: "pct_of 67 100 = 67"
  by (rule pct_cert[where x = "67 / 100" and ?e1.0 = "-1" and ?z1.0 = 6034823500676465
        and ?e2.0 = "6" and ?z2.0 = 4714705859903488
        and a = "6034823500676465 * 2 powi (-53)" and b = "4714705859903488 * 2 powi (-46)"])
     (simp_all add: power_int_def power_divide)

lemma pct_of_100_68: "pct_of 68 100 = 68"
  by (rule pct_cert[where x = "68 / 100" and ?e1.0 = "-1" and ?z1.0 = 6124895493223875
        and ?e2.0 = "6" and ?z2.0 = 4785074604081152
        and a = "6124895493223875 * 2 powi (-53)" and b = "4785074604081152 * 2 powi (-46)"])
     (simp_all add: power_int_def power_divide)

lemma pct_of_100_69: "pct_of 69 100 = 69"
  by (rule pct_cert[where x = "69 / 100" and ?e1.0 = "-1" and ?z1.0 = 6214967485771284
        and ?e2.0 = "6" and ?z2.0 = 4855443348258816
        and a = "6214967485771284 * 2 powi (-53)" and b = "4855443348258816 * 2 powi (-46)"])
     (simp_all add: power_int_def power_divide)

lemma pct_of_100_70: "pct_of 70 100 = 70"
  by (rule pct_cert[where x = "70 / 100" and ?e1.0 = "-1" and ?z1.0 = 6305039478318694
        and ?e2.0 = "6" and ?z2.0 = 4925812092436480
        and a = "6305039478318694 * 2 powi (-53)" and b = "4925812092436480 * 2 powi (-46)"])
     (simp_all add: power_int_def power_divide)

lemma pct_of_100_71: "pct_of 71 100 = 71"
  by (rule pct_cert[where x = "71 / 100" and ?e1.0 = "-1" and ?z1.0 = 6395111470866104
        and ?e2.0 = "6" and ?z2.0 = 4996180836614144
        and a = "6395111470866104 * 2 powi (-53)" and b = "4996180836614144 * 2 powi (-46)"])
     (simp_all add: power_int_def power_divide)

lemma pct_of_100_72: "pct_of 72 100 = 72"
  by (rule pct_cert[where x = "72 / 100" and ?e1.0 = "-1" and ?z1.0 = 6485183463413514
        and ?e2.0 = "6" and ?z2.0 = 5066549580791808
        and a = "6485183463413514 * 2 powi (-53)" and b = "5066549580791808 * 2 powi (-46)"])
     (simp_all add: power_int_def power_divide)

lemma pct_of_100_73: "pct_of 73 100 = 73"
  by (rule pct_cert[where x = "73 / 100" and ?e1.0 = "-1" and ?z1.0 = 6575255455960924
        and ?e2.0 = "6" and ?z2.0 = 5136918324969472
        and a = "6575255455960924 * 2 powi (-53)" and b = "5136918324969472 * 2 powi (-46)"])
     (simp_all add: power_int_def power_divide)

lemma pct_of_100_74: "pct_of 74 100 = 74"
  by (rule pct_cert[where x = "74 / 100" and ?e1.0 = "-1" and ?z1.0 = 6665327448508334
        and ?e2.0 = "6" and ?z2.0 = 5207287069147136
        and a = "6665327448508334 * 2 powi (-53)" and b = "5207287069147136 * 2 powi (-46)"])
     (simp_all add: power_int_def power_divide)

lemma pct_of_100_75: "pct_of 75 100 = 75"
  by (rule pct_cert[where x = "75 / 100" and ?e1.0 = "-1" and ?z1.0 = 6755399441055744
        and ?e2.0 = "6" and ?z2.0 = 5277655813324800
        and a = "6755399441055744 * 2 powi (-53)" and b = "5277655813324800 * 2 powi (-46)"])
     (simp_all add: power_int_def power_divide)

lemma pct_of_100_76: "pct_of 76 100 = 76"
  by (rule pct_cert[where x = "76 / 100" and ?e1.0 = "-1" and ?z1.0 = 6845471433603154
        and ?e2.0 = "6" and ?z2.0 = 5348024557502464
        and a = "6845471433603154 * 2 powi (-53)" and b = "5348024557502464 * 2 powi (-46)"])
     (simp_all add: power_int_def power_divide)

lemma pct_of_100_77: "pct_of 77 100 = 77"
  by (rule pct_cert[where x = "77 / 100" and ?e1.0 = "-1" and ?z1.0 = 6935543426150564
        and ?e2.0 = "6" and ?z2.0 = 5418393301680128
        and a = "6935543426150564 * 2 powi (-53)" and b = "5418393301680128 * 2 powi (-46)"])
     (simp_all add: power_int_def power_divide)

lemma pct_of_100_78: "pct_of 78 100 = 78"
  by (rule pct_cert[where x = "78 / 100" and ?e1.0 = "-1" and ?z1.0 = 7025615418697974
        and ?e2.0 = "6" and ?z2.0 = 5488762045857792
        and a = "7025615418697974 * 2 powi (-53)" and b = "5488762045857792 * 2 powi (-46)"])
     (simp_all add: power_int_def power_divide)

lemma pct_of_100_79: "pct_of 79 100 = 79"
  by (rule pct_cert[where x = "79 / 100" and ?e1.0 = "-1" and ?z1.0 = 7115687411245384
        and ?e2.0 = "6" and ?z2.0 = 5559130790035456
        and a = "7115687411245384 * 2 powi (-53)" and b = "5559130790035456 * 2 powi (-46)"])
     (simp_all add: power_int_def power_divide)

lemma pct_of_100_80: "pct_of 80 100 = 80"
  by (rule pct_cert[where x = "80 / 100" and ?e1.0 = "-1" and ?z1.0 = 7205759403792794
        and ?e2.0 = "6" and ?z2.0 = 5629499534213120
        and a = "7205759403792794 * 2 powi (-53)" and b = "5629499534213120 * 2 powi (-46)"])
     (simp_all add: power_int_def power_divide)

lemma pct_of_100_81: "pct_of 81 100 = 81"
  by (rule pct_cert[where x = "81 / 100" and ?e1.0 = "-1" and ?z1.0 = 7295831396340204
        and ?e2.0 = "6" and ?z2.0 = 5699868278390784
        and a = "7295831396340204 * 2 powi (-53)" and b = "5699868278390784 * 2 powi (-46)"])
     (simp_all add: power_int_def power_divide)

lemma pct_of_100_82: "pct_of 82 100 = 82"
  by (rule pct_cert[where x = "82 / 100" and ?e1.0 = "-1" and ?z1.0 = 7385903388887613
        and ?e2.0 = "6" and ?z2.0 = 5770237022568448
        and a = "7385903388887613 * 2 powi (-53)" and b = "5770237022568448 * 2 powi (-46)"])
     (simp_all add: power_int_def power_divide)

lemma pct_of_100_83: "pct_of 83 100 = 83"
  by (rule pct_cert[where x = "83 / 100" and ?e1.0 = "-1" and ?z1.0 = 7475975381435023
        and ?e2.0 = "6" and ?z2.0 = 5840605766746112
        and a = "7475975381435023 * 2 powi (-53)" and b = "5840605766746112 * 2 powi (-46)"])
     (simp_all add: power_int_def power_divide)

lemma pct_of_100_84: "pct_of 84 100 = 84"
  by (rule pct_cert[where x = "84 / 100" and ?e1.0 = "-1" and ?z1.0 = 7566047373982433
        and ?e2.0 = "6" and ?z2.0 = 5910974510923776
        and a = "7566047373982433 * 2 powi (-53)" and b = "5910974510923776 * 2 powi (-46)"])
     (simp_all add: power_int_def power_divide)

lemma pct_of_100_85: "pct_of 85 100 = 85"
  by (rule pct_cert[where x = "85 / 100" and ?e1.0 = "-1" and ?z1.0 = 7656119366529843
        and ?e2.0 = "6" and ?z2.0 = 5981343255101440
        and a = "7656119366529843 * 2 powi (-53)" and b = "5981343255101440 * 2 powi (-46)"])
     (simp_all add: power_int_def power_divide)

lemma pct_of_100_86: "pct_of 86 100 = 86"
  by (rule pct_cert[where x = "86 / 100" and ?e1.0 = "-1" and ?z1.0 = 7746191359077253
        and ?e2.0 = "6" and ?z2.0 = 6051711999279104
        and a = "7746191359077253 * 2 powi (-53)" and b = "6051711999279104 * 2 powi (-46)"])
     (simp_all add: power_int_def power_divide)

lemma pct_of_100_87: "pct_of 87 100 = 87"
  by (rule pct_cert[where x = "87 / 100" and ?e1.0 = "-1" and ?z1.0 = 7836263351624663
        and ?e2.0 = "6" and ?z2.0 = 6122080743456768
        and a = "7836263351624663 * 2 powi (-53)" and b = "6122080743456768 * 2 powi (-46)"])
     (simp_all add: power_int_def power_divide)

lemma pct_of_100_88: "pct_of 88 100 = 88"
  by (rule pct_cert[where x = "88 / 100" and ?e1.0 = "-1" and ?z1.0 = 7926335344172073
        and ?e2.0 = "6" and ?z2.0 = 6192449487634432
        and a = "7926335344172073 * 2 powi (-53)" and b = "6192449487634432 * 2 powi (-46)"])
     (simp_all add: power_int_def power_divide)

lemma pct_of_100_89: "pct_of 89 100 = 89"
  by (rule pct_cert[where x = "89 / 100" and ?e1.0 = "-1" and ?z1.0 = 8016407336719483
        and ?e2.0 = "6" and ?z2.0 = 6262818231812096
        and a = "8016407336719483 * 2 powi (-53)" and b = "6262818231812096 * 2 powi (-46)"])
     (simp_all add: power_int_def power_divide)

lemma pct_of_100_90: "pct_of 90 100 = 90"
  by (rule pct_cert[where x = "90 / 100" and ?e1.0 = "-1" and ?z1.0 = 8106479329266893
        and ?e2.0 = "6" and ?z2.0 = 6333186975989760
        and a = "8106479329266893 * 2 powi (-53)" and b = "6333186975989760 * 2 powi (-46)"])
     (simp_all add: power_int_def power_divide)

lemma pct_of_100_91: "pct_of 91 100 = 91"
  by (rule pct_cert[where x = "91 / 100" and ?e1.0 = "-1" and ?z1.0 = 8196551321814303
        and ?e2.0 = "6" and ?z2.0 = 6403555720167424
        and a = "8196551321814303 * 2 powi (-53)" and b = "6403555720167424 * 2 powi (-46)"])
     (simp_all add: power_int_def power_divide)

lemma pct_of_100_92: "pct_of 92 100 = 92"
  by (rule pct_cert[where x = "92 / 100" and ?e1.0 = "-1" and ?z1.0 = 8286623314361713
        and ?e2.0 = "6" and ?z2.0 = 6473924464345088
        and a = "8286623314361713 * 2 powi (-53)" and b = "6473924464345088 * 2 powi (-46)"])
     (simp_all add: power_int_def power_divide)

lemma pct_of_100_93: "pct_of 93 100 = 93"
  by (rule pct_cert[where x = "93 / 100" and ?e1.0 = "-1" and ?z1.0 = 8376695306909123
        and ?e2.0 = "6" and ?z2.0 = 6544293208522752
        and a = "8376695306909123 * 2 powi (-53)" and b = "6544293208522752 * 2 powi (-46)"])
     (simp_all add: power_int_def power_divide)

lemma pct_of_100_94: "pct_of 94 100 = 94"
  by (rule pct_cert[where x = "94 / 100" and ?e1.0 = "-1" and ?z1.0 = 8466767299456532
        and ?e2.0 = "6" and ?z2.0 = 6614661952700416
        and a = "8466767299456532 * 2 powi (-53)" and b = "6614661952700416 * 2 powi (-46)"])
     (simp_all add: power_int_def power_divide)

lemma pct_of_100_95: "pct_of 95 100 = 95"
  by (rule pct_cert[where x = "95 / 100" and ?e1.0 = "-1" and ?z1.0 = 8556839292003942
        and ?e2.0 = "6" and ?z2.0 = 6685030696878080
        and a = "8556839292003942 * 2 powi (-53)" and b = "6685030696878080 * 2 powi (-46)"])
     (simp_all add: power_int_def power_divide)

lemma pct_of_100_96: "pct_of 96 100 = 96"
  by (rule pct_cert[where x = "96 / 100" and ?e1.0 = "-1" and ?z1.0 = 8646911284551352
        and ?e2.0 = "6" and ?z2.0 = 6755399441055744
        and a = "8646911284551352 * 2 powi (-53)" and b = "6755399441055744 * 2 powi (-46)"])
     (simp_all add: power_int_def power_divide)

lemma pct_of_100_97: "pct_of 97 100 = 97"
  by (rule pct_cert[where x = "97 / 100" and ?e1.0 = "-1" and ?z1.0 = 8736983277098762
        and ?e2.0 = "6" and ?z2.0 = 6825768185233408
        and a = "8736983277098762 * 2 powi (-53)" and b = "6825768185233408 * 2 powi (-46)"])
     (simp_all add: power_int_def power_divide)

lemma pct_of_100_98: "pct_of 98 100 = 98"
  by (rule pct_cert[where x = "98 / 100" and ?e1.0 = "-1" and ?z1.0 = 8827055269646172
        and ?e2.0 = "6" and ?z2.0 = 6896136929411072
        and a = "8827055269646172 * 2 powi (-53)" and b = "6896136929411072 * 2 powi (-46)"])
     (simp_all add: power_int_def power_divide)

lemma pct_of_100_99: "pct_of 99 100 = 99"
  by (rule pct_cert[where x = "99 / 100" and ?e1.0 = "-1" and ?z1.0 = 8917127262193582
        and ?e2.0 = "6" and ?z2.0 = 6966505673588736
        and a = "8917127262193582 * 2 powi (-53)" and b = "6966505673588736 * 2 powi (-46)"])
     (simp_all add: power_int_def power_divide)

lemma pct_of_100_100: "pct_of 100 100 = 100"
  by (rule pct_cert[where x = "100 / 100" and ?e1.0 = "0" and ?z1.0 = 4503599627370496
        and ?e2.0 = "6" and ?z2.0 = 7036874417766400
        and a = "4503599627370496 * 2 powi (-52)" and b = "7036874417766400 * 2 powi (-46)"])
     (simp_all add: power_int_def power_divide)

lemmas pct_of_100 =
  pct_of_100_1 pct_of_100_2 pct_of_100_3 pct_of_100_4 pct_of_100_5 pct_of_100_6
  pct_of_100_7 pct_of_100_8 pct_of_100_9 pct_of_100_10 pct_of_100_11 pct_of_100_12
  pct_of_100_13 pct_of_100_14 pct_of_100_15 pct_of_100_16 pct_of_100_17 pct_of_100_18
  pct_of_100_19 pct_of_100_20 pct_of_100_21 pct_of_100_22 pct_of_100_23 pct_of_100_24
  pct_of_100_25 pct_of_100_26 pct_of_100_27 pct_of_100_28 pct_of_100_29 pct_of_100_30
  pct_of_100_31 pct_of_100_32 pct_of_100_33 pct_of_100_34 pct_of_100_35 pct_of_100_36
  pct_of_100_37 pct_of_100_38 pct_of_100_39 pct_of_100_40 pct_of_100_41 pct_of_100_42
  pct_of_100_43 pct_of_100_44 pct_of_100_45 pct_of_100_46 pct_of_100_47 pct_of_100_48
  pct_of_100_49 pct_of_100_50 pct_of_100_51 pct_of_100_52 pct_of_100_53 pct_of_100_54
  pct_of_100_55 pct_of_100_56 pct_of_100_57 pct_of_100_58 pct_of_100_59 pct_of_100_60
  pct_of_100_61 pct_of_100_62 pct_of_100_63 pct_of_100_64 pct_of_100_65 pct_of_100_66
  pct_of_100_67 pct_of_100_68 pct_of_100_69 pct_of_100_70 pct_of_100_71 pct_of_100_72
  pct_of_100_73 pct_of_100_74 pct_of_100_75 pct_of_100_76 pct_of_100_77 pct_of_100_78
  pct_of_100_79 pct_of_100_80 pct_of_100_81 pct_of_100_82 pct_of_100_83 pct_of_100_84
  pct_of_100_85 pct_of_100_86 pct_of_100_87 pct_of_100_88 pct_of_100_89 pct_of_100_90
  pct_of_100_91 pct_of_100_92 pct_of_100_93 pct_of_100_94 pct_of_100_95 pct_of_100_96
  pct_of_100_97 pct_of_100_98 pct_of_100_99 pct_of_100_100

lemma upto_100:
  "[0..<101] =
     [0, 1, 2, 3, 4, 5, 6, 7, 8, 9, 10, 11, 12, 13, 14, 15, 16, 17, 18, 19, 20, 21, 22,
      23, 24, 25, 26, 27, 28, 29, 30, 31, 32, 33, 34, 35, 36, 37, 38, 39, 40, 41, 42, 43,
      44, 45, 46, 47, 48, 49, 50, 51, 52, 53, 54, 55, 56, 57, 58, 59, 60, 61, 62, 63, 64,
      65, 66, 67, 68, 69, 70, 71, 72, 73, 74, 75, 76, 77, 78, 79, 80, 81, 82, 83, 84, 85,
      86, 87, 88, 89, 90, 91, 92, 93, 94, 95, 96, 97, 98, 99, 100::nat]"
  by (simp add: upt_rec)

lemma pct_of_100_table:
  assumes "k \<le> 100"
  shows "pct_of k 100 = (if k = 29 \<or> k = 57 \<or> k = 58 then int k - 1 else int k)"
proof -
  from assms have "k \<in> set [0..<101]" by simp
  then have
    "k \<in> set [0, 1, 2, 3, 4, 5, 6, 7, 8, 9, 10, 11, 12, 13, 14, 15, 16, 17, 18, 19, 20, 21, 22,
      23, 24, 25, 26, 27, 28, 29, 30, 31, 32, 33, 34, 35, 36, 37, 38, 39, 40, 41, 42, 43,
      44, 45, 46, 47, 48, 49, 50, 51, 52, 53, 54, 55, 56, 57, 58, 59, 60, 61, 62, 63, 64,
      65, 66, 67, 68, 69, 70, 71, 72, 73, 74, 75, 76, 77, 78, 79, 80, 81, 82, 83, 84, 85,
      86, 87, 88, 89, 90, 91, 92, 93, 94, 95, 96, 97, 98, 99, 100]"
    by (simp only: upto_100)
  then show ?thesis
    by (auto simp: pct_of_100 simp del: One_nat_def)
qed

text \<open>The result depends on the quotient only.\<close>

lemma pct_of_quotient:
  assumes "0 < n" and "100 * c = k * n"
  shows "pct_of c n = pct_of k 100"
proof -
  from assms(2) have "(of_nat (100 * c) :: rat) = of_nat (k * n)" by simp
  then have eq: "(of_nat c :: rat) / of_nat n = of_nat k / of_nat 100"
    using assms(1) by (simp add: field_simps)
  show ?thesis
    unfolding pct_of_def eq by (rule refl)
qed

lemma pct_29_of_50: "pct_of 29 50 = 57"
  using pct_of_quotient[of 50 29 58] by (simp add: pct_of_100_58)

lemma pct_of_exact:
  assumes "0 < n" and "c \<le> n" and "n \<le> 2 ^ 45"
  shows "pct_of c n =
           (if n dvd 100 * c \<and> ((100 * c) div n = 29 \<or> (100 * c) div n = 57 \<or> (100 * c) div n = 58)
            then int ((100 * c) div n) - 1 else int ((100 * c) div n))"
proof (cases "n dvd 100 * c")
  case False
  with pct_of_bounds(2)[OF assms] show ?thesis by simp
next
  case True
  define k where "k = (100 * c) div n"
  from True have e: "100 * c = k * n" by (simp add: k_def)
  have "k * n \<le> 100 * n" using assms(2) by (simp flip: e)
  then have k: "k \<le> 100" using assms(1) by simp
  from pct_of_quotient[OF assms(1) e] pct_of_100_table[OF k] True
  show ?thesis by (simp add: k_def)
qed

text \<open>
  C6, as the code has it.  \<open>progress_pct\<close> is 0 for a list with no tasks.  Otherwise it
  is \<open>int((completed / total) * 100)\<close> in double arithmetic, which is the quotient
  \<open>100 * completed / total\<close> truncated to an integer (its floor, never rounded up), with
  three exceptions: where the quotient is exactly 29, 57 or 58 the two roundings leave
  a product just below it and the result is 28, 56 or 57.  So it is 0 when no task is
  completed and 100 when all are.  The bound on the list length is far beyond what
  memory holds.
\<close>

theorem progress_pct_truncates:
  "(tasks L = [] \<longrightarrow> progress_pct L = 0) \<and>
   (tasks L \<noteq> [] \<and> length (tasks L) \<le> 2 ^ 45 \<longrightarrow>
      (let c = length (filter (\<lambda>t. status t = COMPLETED) (tasks L));
           n = length (tasks L);
           k = (100 * c) div n
       in progress_pct L =
            (if n dvd 100 * c \<and> (k = 29 \<or> k = 57 \<or> k = 58) then int k - 1 else int k)))"
proof -
  have "progress_pct L = 0" if "tasks L = []"
    using that by (simp add: progress_pct_def)
  moreover have
    "let c = length (filter (\<lambda>t. status t = COMPLETED) (tasks L));
         n = length (tasks L);
         k = (100 * c) div n
     in progress_pct L =
          (if n dvd 100 * c \<and> (k = 29 \<or> k = 57 \<or> k = 58) then int k - 1 else int k)"
    if "tasks L \<noteq> [] \<and> length (tasks L) \<le> 2 ^ 45"
  proof -
    define c where "c = length (filter (\<lambda>t. status t = COMPLETED) (tasks L))"
    define n where "n = length (tasks L)"
    have n: "0 < n" "c \<le> n" "n \<le> 2 ^ 45"
      using that by (simp_all add: n_def c_def)
    have p: "progress_pct L = pct_of c n"
      using that by (simp add: progress_pct_def c_def n_def)
    from pct_of_exact[OF n] show ?thesis
      unfolding Let_def p c_def[symmetric] n_def[symmetric] by simp
  qed
  ultimately show ?thesis by blast
qed

text \<open>
  The theorem at four lists: no tasks; two of three completed, where the quotient
  is not whole; none of two and both of two completed.
\<close>

theorem progress_pct_truncates_witness:
  "progress_pct (ex_list_of []) = 0 \<and> progress_pct ex_thirds_list = 66 \<and>
   progress_pct ex_list = 0 \<and>
   progress_pct (ex_list_of [ex_task_a\<lparr>status := COMPLETED\<rparr>, ex_task_d\<lparr>status := COMPLETED\<rparr>]) = 100"
proof -
  let ?done = "ex_list_of [ex_task_a\<lparr>status := COMPLETED\<rparr>, ex_task_d\<lparr>status := COMPLETED\<rparr>]"
  have e: "tasks (ex_list_of []) = []"
    by (simp add: ex_list_of_def)
  have t: "tasks ex_thirds_list \<noteq> [] \<and> length (tasks ex_thirds_list) \<le> 2 ^ 45"
    by (simp add: ex_thirds_list_def ex_list_of_def)
  have c: "length (filter (\<lambda>t. status t = COMPLETED) (tasks ex_thirds_list)) = 2"
    by (simp add: ex_thirds_list_def ex_list_of_def ex_task_b_def new_task_def)
  have n: "length (tasks ex_thirds_list) = 3"
    by (simp add: ex_thirds_list_def ex_list_of_def)
  have t0: "tasks ex_list \<noteq> [] \<and> length (tasks ex_list) \<le> 2 ^ 45"
    by (simp add: ex_list_def ex_list_of_def)
  have c0: "length (filter (\<lambda>t. status t = COMPLETED) (tasks ex_list)) = 0"
    by (simp add: ex_list_def ex_list_of_def ex_task_a_def ex_task_b_def new_task_def)
  have n0: "length (tasks ex_list) = 2"
    by (simp add: ex_list_def ex_list_of_def)
  have t1: "tasks ?done \<noteq> [] \<and> length (tasks ?done) \<le> 2 ^ 45"
    by (simp add: ex_list_of_def)
  have c1: "length (filter (\<lambda>t. status t = COMPLETED) (tasks ?done)) = 2"
    by (simp add: ex_list_of_def)
  have n1: "length (tasks ?done) = 2"
    by (simp add: ex_list_of_def)
  from progress_pct_truncates[of "ex_list_of []"] e
  have "progress_pct (ex_list_of []) = 0" by blast
  moreover from progress_pct_truncates[of ex_thirds_list] t
  have "progress_pct ex_thirds_list = 66"
    unfolding Let_def c n by simp
  moreover from progress_pct_truncates[of ex_list] t0
  have "progress_pct ex_list = 0"
    unfolding Let_def c0 n0 by simp
  moreover from progress_pct_truncates[of ?done] t1
  have "progress_pct ?done = 100"
    unfolding Let_def c1 n1 by simp
  ultimately show ?thesis by blast
qed

text \<open>
  C6 as stated fails: with two of three tasks completed \<open>progress_pct\<close> is 66, while
  \<open>round(100 * 2 / 3)\<close> is 67.
\<close>

theorem progress_pct_round_counterexample:
  "length (filter (\<lambda>t. status t = COMPLETED) (tasks ex_thirds_list)) = 2 \<and>
   length (tasks ex_thirds_list) = 3 \<and>
   progress_pct ex_thirds_list = 66 \<and>
   round (100 * 2 / 3 :: rat) = 67"
proof -
  have c: "length (filter (\<lambda>t. status t = COMPLETED) (tasks ex_thirds_list)) = 2"
    by (simp add: ex_thirds_list_def ex_list_of_def ex_task_b_def new_task_def)
  have n: "length (tasks ex_thirds_list) = 3"
    by (simp add: ex_thirds_list_def ex_list_of_def)
  have "tasks ex_thirds_list \<noteq> []"
    by (simp add: ex_thirds_list_def ex_list_of_def)
  then have p: "progress_pct ex_thirds_list = pct_of 2 3"
    by (simp add: progress_pct_def c n)
  have "pct_of 2 3 = int ((100 * 2) div 3)"
    by (rule pct_of_bounds(2)) simp_all
  then have v: "progress_pct ex_thirds_list = 66"
    by (simp add: p)
  have r: "round (100 * 2 / 3 :: rat) = 67"
    by (simp add: round_def) linarith
  from c n v r show ?thesis by blast
qed

end
